theory Spec2Isabelle
  imports Main
begin

section \<open>Values, errors and strings\<close>

text \<open>
  The Songs application keeps track records in a document store. This theory embeds
  the record model (\<^verbatim>\<open>models.py\<close>), the repository (\<^verbatim>\<open>database.py\<close>) and the
  services (\<^verbatim>\<open>services.py\<close>) as HOL functions. Timestamps are natural numbers
  (clock readings); every function that reads \<^verbatim>\<open>datetime.now\<close> takes the reading
  as its argument \<open>now\<close>. An object identifier is the list of its bytes.
\<close>

type_synonym timestamp = nat
type_synonym objid = "nat list"

text \<open>
  The values a document or a keyword argument holds. The record itself is typed as
  the dataclass annotates it; where a dictionary value is read into a typed field and
  has another type, the model stops with \<open>TypeError\<close> (the untyped behaviour of such a
  value is outside this embedding).
\<close>

datatype pyval = PNone | PStr string | PInt int | PTime timestamp | POid objid

type_synonym document = "(string \<times> pyval) list"

datatype exn =
    ValueError string
  | DatabaseError string
  | Exception string
  | InvalidId string
  | DuplicateKeyError string
  | PyMongoError string
  | TypeError string

text \<open>The text of an exception, as an f-string prints it.\<close>

fun message :: "exn \<Rightarrow> string" where
  "message (ValueError m) = m"
| "message (DatabaseError m) = m"
| "message (Exception m) = m"
| "message (InvalidId m) = m"
| "message (DuplicateKeyError m) = m"
| "message (PyMongoError m) = m"
| "message (TypeError m) = m"

fun is_ValueError :: "exn \<Rightarrow> bool" where
  "is_ValueError (ValueError m) = True"
| "is_ValueError e = False"


fun truthy :: "pyval \<Rightarrow> bool" where
  "truthy PNone = False"
| "truthy (PStr s) = (s \<noteq> [])"
| "truthy (PInt i) = (i \<noteq> 0)"
| "truthy (PTime t) = True"
| "truthy (POid i) = True"

text \<open>
  \<^verbatim>\<open>str.strip()\<close>: the characters \<^verbatim>\<open>str.isspace\<close> accepts, among the code points
  below 256, are removed at both ends.
\<close>

definition isspace :: "char \<Rightarrow> bool" where
  "isspace c = ((of_char c :: nat) \<in> {9, 10, 11, 12, 13, 28, 29, 30, 31, 32, 133, 160})"

definition strip :: "string \<Rightarrow> string" where
  "strip s = rev (dropWhile isspace (rev (dropWhile isspace s)))"

section \<open>The record model\<close>

record song =
  title :: string
  artist :: string
  username :: string
  genre :: "string option"
  year :: "int option"
  duration :: "int option"
  created_at :: timestamp
  updated_at :: timestamp
  song_id :: "objid option"

text \<open>\<^verbatim>\<open>Song._validate\<close>: the checks in the order of the source.\<close>

definition validate :: "song \<Rightarrow> exn + unit" where
  "validate self =
     (if title self = [] \<or> strip (title self) = [] then
        Inl (ValueError ''Song title cannot be empty'')
      else if artist self = [] \<or> strip (artist self) = [] then
        Inl (ValueError ''Artist name cannot be empty'')
      else if username self = [] \<or> strip (username self) = [] then
        Inl (ValueError ''Username cannot be empty'')
      else if (case year self of None \<Rightarrow> False | Some y \<Rightarrow> y < 1000 \<or> y > 3000) then
        Inl (ValueError ''Year must be between 1000 and 3000'')
      else if (case duration self of None \<Rightarrow> False | Some d \<Rightarrow> d < 0) then
        Inl (ValueError ''Duration cannot be negative'')
      else Inr ())"

text \<open>
  The constructor of the dataclass followed by \<^verbatim>\<open>__post_init__\<close>. The two default
  factories of \<^verbatim>\<open>created_at\<close> and \<^verbatim>\<open>updated_at\<close> are evaluated by the caller.
\<close>

definition Song ::
  "string \<Rightarrow> string \<Rightarrow> string \<Rightarrow> string option \<Rightarrow> int option \<Rightarrow> int option \<Rightarrow>
   timestamp \<Rightarrow> timestamp \<Rightarrow> objid option \<Rightarrow> exn + song" where
  "Song t a u g y d c up i =
     (let self = \<lparr>title = t, artist = a, username = u, genre = g, year = y, duration = d,
                  created_at = c, updated_at = up, song_id = i\<rparr>
      in case validate self of Inl e \<Rightarrow> Inl e | Inr _ \<Rightarrow> Inr self)"

text \<open>\<^verbatim>\<open>Song.to_dict\<close>. An \<^verbatim>\<open>ObjectId\<close> is always true, an empty genre is false.\<close>

definition to_dict :: "song \<Rightarrow> document" where
  "to_dict self =
     [(''title'', PStr (strip (title self))),
      (''artist'', PStr (strip (artist self))),
      (''username'', PStr (strip (username self))),
      (''created_at'', PTime (created_at self)),
      (''updated_at'', PTime (updated_at self))]
     @ (case genre self of None \<Rightarrow> []
        | Some g \<Rightarrow> if g \<noteq> [] then [(''genre'', PStr (strip g))] else [])
     @ (case year self of None \<Rightarrow> [] | Some y \<Rightarrow> [(''year'', PInt y)])
     @ (case duration self of None \<Rightarrow> [] | Some d \<Rightarrow> [(''duration'', PInt d)])
     @ (case song_id self of None \<Rightarrow> [] | Some i \<Rightarrow> [(''_id'', POid i)])"

text \<open>\<^verbatim>\<open>data.get(key, default)\<close> read into a typed field.\<close>

definition get_str :: "document \<Rightarrow> string \<Rightarrow> string \<Rightarrow> exn + string" where
  "get_str data k dflt =
     (case map_of data k of None \<Rightarrow> Inr dflt | Some (PStr s) \<Rightarrow> Inr s
      | Some _ \<Rightarrow> Inl (TypeError k))"

definition get_time :: "document \<Rightarrow> string \<Rightarrow> timestamp \<Rightarrow> exn + timestamp" where
  "get_time data k dflt =
     (case map_of data k of None \<Rightarrow> Inr dflt | Some (PTime t) \<Rightarrow> Inr t
      | Some _ \<Rightarrow> Inl (TypeError k))"

definition get_opt_str :: "document \<Rightarrow> string \<Rightarrow> exn + string option" where
  "get_opt_str data k =
     (case map_of data k of None \<Rightarrow> Inr None | Some PNone \<Rightarrow> Inr None
      | Some (PStr s) \<Rightarrow> Inr (Some s) | Some _ \<Rightarrow> Inl (TypeError k))"

definition get_opt_int :: "document \<Rightarrow> string \<Rightarrow> exn + int option" where
  "get_opt_int data k =
     (case map_of data k of None \<Rightarrow> Inr None | Some PNone \<Rightarrow> Inr None
      | Some (PInt n) \<Rightarrow> Inr (Some n) | Some _ \<Rightarrow> Inl (TypeError k))"

definition get_opt_oid :: "document \<Rightarrow> string \<Rightarrow> exn + objid option" where
  "get_opt_oid data k =
     (case map_of data k of None \<Rightarrow> Inr None | Some PNone \<Rightarrow> Inr None
      | Some (POid i) \<Rightarrow> Inr (Some i) | Some _ \<Rightarrow> Inl (TypeError k))"

text \<open>Sequencing of computations that may raise.\<close>

fun and_then :: "exn + 'a \<Rightarrow> ('a \<Rightarrow> exn + 'b) \<Rightarrow> exn + 'b" where
  "and_then (Inl e) f = Inl e"
| "and_then (Inr x) f = f x"

text \<open>\<^verbatim>\<open>Song.from_dict\<close>.\<close>

definition from_dict :: "document \<Rightarrow> timestamp \<Rightarrow> exn + song" where
  "from_dict data now =
     and_then (get_str data ''title'' []) (\<lambda>t.
     and_then (get_str data ''artist'' []) (\<lambda>a.
     and_then (get_str data ''username'' []) (\<lambda>u.
     and_then (get_opt_str data ''genre'') (\<lambda>g.
     and_then (get_opt_int data ''year'') (\<lambda>y.
     and_then (get_opt_int data ''duration'') (\<lambda>d.
     and_then (get_time data ''created_at'' now) (\<lambda>c.
     and_then (get_time data ''updated_at'' now) (\<lambda>up.
     and_then (get_opt_oid data ''_id'') (\<lambda>i.
       Song t a u g y d c up i)))))))))"

text \<open>
  \<^verbatim>\<open>hasattr\<close> and \<^verbatim>\<open>setattr\<close> on the fields of the dataclass. A key that names
  no field is taken to name no attribute at all (a key that names a method of the
  class is outside this embedding); a value that is not of the annotated type of its
  field stops the model with \<open>TypeError\<close>.
\<close>

definition hasattr :: "string \<Rightarrow> bool" where
  "hasattr key = (key \<in> set [''title'', ''artist'', ''username'', ''genre'', ''year'',
     ''duration'', ''created_at'', ''updated_at'', ''id''])"

definition setattr :: "song \<Rightarrow> string \<Rightarrow> pyval \<Rightarrow> exn + song" where
  "setattr self key v =
     (if key = ''title'' then (case v of PStr s \<Rightarrow> Inr (self\<lparr>title := s\<rparr>) | _ \<Rightarrow> Inl (TypeError key))
      else if key = ''artist'' then (case v of PStr s \<Rightarrow> Inr (self\<lparr>artist := s\<rparr>) | _ \<Rightarrow> Inl (TypeError key))
      else if key = ''username'' then (case v of PStr s \<Rightarrow> Inr (self\<lparr>username := s\<rparr>) | _ \<Rightarrow> Inl (TypeError key))
      else if key = ''genre'' then (case v of PStr s \<Rightarrow> Inr (self\<lparr>genre := Some s\<rparr>) | _ \<Rightarrow> Inl (TypeError key))
      else if key = ''year'' then (case v of PInt n \<Rightarrow> Inr (self\<lparr>year := Some n\<rparr>) | _ \<Rightarrow> Inl (TypeError key))
      else if key = ''duration'' then (case v of PInt n \<Rightarrow> Inr (self\<lparr>duration := Some n\<rparr>) | _ \<Rightarrow> Inl (TypeError key))
      else if key = ''created_at'' then (case v of PTime t \<Rightarrow> Inr (self\<lparr>created_at := t\<rparr>) | _ \<Rightarrow> Inl (TypeError key))
      else if key = ''updated_at'' then (case v of PTime t \<Rightarrow> Inr (self\<lparr>updated_at := t\<rparr>) | _ \<Rightarrow> Inl (TypeError key))
      else if key = ''id'' then (case v of POid i \<Rightarrow> Inr (self\<lparr>song_id := Some i\<rparr>) | _ \<Rightarrow> Inl (TypeError key))
      else Inl (TypeError key))"

text \<open>
  \<^verbatim>\<open>Song.update_fields\<close>. The object is mutated in place, so the function returns the
  object as the call leaves it together with the outcome: the loop over the keyword
  arguments, then the new \<^verbatim>\<open>updated_at\<close>, then the validation.
\<close>

fun update_fields :: "song \<Rightarrow> (string \<times> pyval) list \<Rightarrow> timestamp \<Rightarrow> (exn + unit) \<times> song" where
  "update_fields self [] now =
     (let self' = self\<lparr>updated_at := now\<rparr> in (validate self', self'))"
| "update_fields self ((key, v) # kwargs) now =
     (if hasattr key \<and> v \<noteq> PNone then
        (case setattr self key v of
           Inl e \<Rightarrow> (Inl e, self)
         | Inr self' \<Rightarrow> update_fields self' kwargs now)
      else update_fields self kwargs now)"


text \<open>\<^verbatim>\<open>HistoryEntry\<close> with its validation; an unusual action is only logged.\<close>

record history_entry =
  entry_username :: string
  action :: string
  song_title :: string
  song_artist :: string
  entry_timestamp :: timestamp
  entry_id :: "objid option"

definition entry_validate :: "history_entry \<Rightarrow> exn + unit" where
  "entry_validate self =
     (if entry_username self = [] \<or> strip (entry_username self) = [] then
        Inl (ValueError ''Username cannot be empty'')
      else if action self = [] \<or> strip (action self) = [] then
        Inl (ValueError ''Action cannot be empty'')
      else Inr ())"

definition HistoryEntry ::
  "string \<Rightarrow> string \<Rightarrow> string \<Rightarrow> string \<Rightarrow> timestamp \<Rightarrow> objid option \<Rightarrow> exn + history_entry" where
  "HistoryEntry u act t a ts i =
     (let self = \<lparr>entry_username = u, action = act, song_title = t, song_artist = a,
                  entry_timestamp = ts, entry_id = i\<rparr>
      in case entry_validate self of Inl e \<Rightarrow> Inl e | Inr _ \<Rightarrow> Inr self)"

definition entry_to_dict :: "history_entry \<Rightarrow> document" where
  "entry_to_dict self =
     [(''username'', PStr (strip (entry_username self))),
      (''action'', PStr (strip (action self))),
      (''song_title'', PStr (strip (song_title self))),
      (''song_artist'', PStr (strip (song_artist self))),
      (''timestamp'', PTime (entry_timestamp self))]
     @ (case entry_id self of None \<Rightarrow> [] | Some i \<Rightarrow> [(''_id'', POid i)])"

section \<open>The document store\<close>

text \<open>
  The state behind a \<^verbatim>\<open>SongsDatabase\<close>: the connection flag of the object, the two
  collections in their natural order, the counter the server draws new identifiers
  from, and the faults of the environment. A fault, when set, makes every call of
  that kind raise with the given text: \<open>ping_fault\<close> the liveness check of
  \<^verbatim>\<open>connect\<close>, \<open>songs_fault\<close> the calls on the songs collection, \<open>history_fault\<close>
  the calls on the history collection.
\<close>

record songs_database =
  connected :: bool
  songs_collection :: "document list"
  history_collection :: "document list"
  next_oid :: nat
  ping_fault :: "string option"
  songs_fault :: "string option"
  history_fault :: "string option"

text \<open>
  \<^verbatim>\<open>bson.ObjectId\<close> of a string: the string has 24 characters and
  \<^verbatim>\<open>bytes.fromhex\<close> accepts it, or \<^verbatim>\<open>InvalidId\<close> is raised. \<^verbatim>\<open>bytes.fromhex\<close>
  reads two hexadecimal digits for each byte, in either case, and skips ASCII white
  space before a byte and at the end.
\<close>

definition hex_val :: "char \<Rightarrow> nat option" where
  "hex_val c =
     (let n = (of_char c :: nat) in
      if 48 \<le> n \<and> n \<le> 57 then Some (n - 48)
      else if 97 \<le> n \<and> n \<le> 102 then Some (n - 87)
      else if 65 \<le> n \<and> n \<le> 70 then Some (n - 55)
      else None)"

definition ascii_space :: "char \<Rightarrow> bool" where
  "ascii_space c = ((of_char c :: nat) \<in> {9, 10, 11, 12, 13, 32})"

fun fromhex :: "string \<Rightarrow> nat list option" where
  "fromhex [] = Some []"
| "fromhex [c] = (if ascii_space c then Some [] else None)"
| "fromhex (c # c' # cs) =
     (if ascii_space c then fromhex (c' # cs)
      else case (hex_val c, hex_val c') of
             (Some hi, Some lo) \<Rightarrow>
               (case fromhex cs of None \<Rightarrow> None | Some bs \<Rightarrow> Some ((16 * hi + lo) # bs))
           | _ \<Rightarrow> None)"

definition ObjectId :: "string \<Rightarrow> exn + objid" where
  "ObjectId s =
     (if length s = 24 then
        (case fromhex s of Some bs \<Rightarrow> Inr bs | None \<Rightarrow> Inl (InvalidId s))
      else Inl (InvalidId s))"

text \<open>The identifier the server draws for a new document, from its counter.\<close>

definition mk_oid :: "nat \<Rightarrow> objid" where
  "mk_oid n = map (\<lambda>i. (n div 256 ^ (11 - i)) mod 256) [0..<12]"

text \<open>
  The collection calls of the driver. A query is a list of field values that a
  document must all hold; \<^verbatim>\<open>$set\<close> overwrites or adds fields and counts the
  document as modified when a value changes; the identifier of a stored document
  cannot be altered.
\<close>

definition matches :: "document \<Rightarrow> document \<Rightarrow> bool" where
  "matches query d = list_all (\<lambda>kv. map_of d (fst kv) = Some (snd kv)) query"

definition find_one :: "document list \<Rightarrow> document \<Rightarrow> document option" where
  "find_one coll query = List.find (matches query) coll"

fun set_field :: "string \<Rightarrow> pyval \<Rightarrow> document \<Rightarrow> document" where
  "set_field k v [] = [(k, v)]"
| "set_field k v (kv # d) = (if fst kv = k then (k, v) # d else kv # set_field k v d)"

definition set_fields :: "document \<Rightarrow> document \<Rightarrow> document" where
  "set_fields d changes = foldl (\<lambda>d kv. set_field (fst kv) (snd kv) d) d changes"

fun replace_first :: "('a \<Rightarrow> bool) \<Rightarrow> 'a \<Rightarrow> 'a list \<Rightarrow> 'a list" where
  "replace_first P y [] = []"
| "replace_first P y (x # xs) = (if P x then y # xs else x # replace_first P y xs)"

fun remove_first :: "('a \<Rightarrow> bool) \<Rightarrow> 'a list \<Rightarrow> 'a list" where
  "remove_first P [] = []"
| "remove_first P (x # xs) = (if P x then xs else x # remove_first P xs)"

definition insert_one :: "document list \<Rightarrow> nat \<Rightarrow> document \<Rightarrow> exn + pyval \<times> document list \<times> nat" where
  "insert_one coll n doc =
     (case map_of doc ''_id'' of
        None \<Rightarrow> Inr (POid (mk_oid n), coll @ [(''_id'', POid (mk_oid n)) # doc], Suc n)
      | Some v \<Rightarrow>
          if list_ex (\<lambda>d. map_of d ''_id'' = Some v) coll then
            Inl (DuplicateKeyError ''E11000 duplicate key error'')
          else Inr (v, coll @ [doc], n))"

definition update_one :: "document list \<Rightarrow> document \<Rightarrow> document \<Rightarrow> exn + nat \<times> document list" where
  "update_one coll query changes =
     (case find_one coll query of
        None \<Rightarrow> Inr (0, coll)
      | Some d \<Rightarrow>
          if (case map_of changes ''_id'' of None \<Rightarrow> False | Some v \<Rightarrow> map_of d ''_id'' \<noteq> Some v) then
            Inl (PyMongoError ''Performing an update on the path _id would modify the immutable field _id'')
          else if list_ex (\<lambda>kv. map_of d (fst kv) \<noteq> Some (snd kv)) changes then
            Inr (1, replace_first (matches query) (set_fields d changes) coll)
          else Inr (0, coll))"

definition delete_one :: "document list \<Rightarrow> document \<Rightarrow> nat \<times> document list" where
  "delete_one coll query =
     (case find_one coll query of
        None \<Rightarrow> (0, coll)
      | Some d \<Rightarrow> (1, remove_first (matches query) coll))"

text \<open>
  \<^verbatim>\<open>sort(key, -1)\<close> on a time field: later times first, documents without the
  field last, ties in the natural order.
\<close>

definition time_rank :: "string \<Rightarrow> document \<Rightarrow> int" where
  "time_rank key d = (case map_of d key of Some (PTime t) \<Rightarrow> int t + 1 | _ \<Rightarrow> 0)"

definition sort_desc :: "string \<Rightarrow> document list \<Rightarrow> document list" where
  "sort_desc key docs = sort_key (\<lambda>d. - time_rank key d) docs"

section \<open>The repository\<close>

definition connect :: "songs_database \<Rightarrow> exn + songs_database" where
  "connect db =
     (case ping_fault db of
        Some m \<Rightarrow> Inl (DatabaseError (''Database connection failed: '' @ m))
      | None \<Rightarrow> Inr (db\<lparr>connected := True\<rparr>))"

definition close :: "songs_database \<Rightarrow> songs_database" where
  "close db = db\<lparr>connected := False\<rparr>"

definition not_connected :: exn where
  "not_connected = DatabaseError ''Database not connected. Call connect() first.''"

text \<open>\<^verbatim>\<open>except Exception as e: raise DatabaseError(f"...{e}")\<close>.\<close>

definition reraise :: "string \<Rightarrow> exn + 'a \<Rightarrow> exn + 'a" where
  "reraise prefix r =
     (case r of Inl e \<Rightarrow> Inl (DatabaseError (prefix @ message e)) | Inr x \<Rightarrow> Inr x)"

fun add_song_except :: "exn \<Rightarrow> exn" where
  "add_song_except (DuplicateKeyError m) = DatabaseError (''Song already exists: '' @ m)"
| "add_song_except e = DatabaseError (''Failed to add song: '' @ message e)"

definition db_add_song :: "songs_database \<Rightarrow> song \<Rightarrow> (exn + pyval) \<times> songs_database" where
  "db_add_song db song =
     (if \<not> connected db then (Inl not_connected, db)
      else
        let song_data = to_dict song in
        case songs_fault db of
          Some m \<Rightarrow> (Inl (add_song_except (PyMongoError m)), db)
        | None \<Rightarrow>
            (case insert_one (songs_collection db) (next_oid db) song_data of
               Inl e \<Rightarrow> (Inl (add_song_except e), db)
             | Inr (inserted_id, coll, n) \<Rightarrow>
                 let db' = db\<lparr>songs_collection := coll, next_oid := n\<rparr> in
                 if truthy inserted_id then (Inr inserted_id, db')
                 else (Inl (add_song_except (DatabaseError ''Failed to insert song'')), db')))"

text \<open>The loop that decodes the documents of a cursor: the first failure raises.\<close>

fun from_dicts :: "document list \<Rightarrow> timestamp \<Rightarrow> exn + song list" where
  "from_dicts [] now = Inr []"
| "from_dicts (song_data # cursor) now =
     (case from_dict song_data now of
        Inl e \<Rightarrow> Inl e
      | Inr s \<Rightarrow> (case from_dicts cursor now of Inl e \<Rightarrow> Inl e | Inr songs \<Rightarrow> Inr (s # songs)))"

definition get_songs ::
  "songs_database \<Rightarrow> string option \<Rightarrow> int option \<Rightarrow> timestamp \<Rightarrow> exn + song list" where
  "get_songs db user limit now =
     (if \<not> connected db then Inl not_connected
      else reraise ''Failed to get songs: ''
        (let query = (case user of None \<Rightarrow> []
                      | Some u \<Rightarrow> if u \<noteq> [] then [(''username'', PStr u)] else [])
         in case songs_fault db of
              Some m \<Rightarrow> Inl (PyMongoError m)
            | None \<Rightarrow>
                let cursor = sort_desc ''created_at'' (filter (matches query) (songs_collection db));
                    cursor' = (case limit of None \<Rightarrow> cursor
                               | Some n \<Rightarrow> if n \<noteq> 0 then take (nat \<bar>n\<bar>) cursor else cursor)
                in from_dicts cursor' now))"

definition get_song_by_id ::
  "songs_database \<Rightarrow> string \<Rightarrow> string \<Rightarrow> timestamp \<Rightarrow> exn + song option" where
  "get_song_by_id db user sid now =
     (if \<not> connected db then Inl not_connected
      else case ObjectId sid of
        Inl e \<Rightarrow> Inl (DatabaseError (''Invalid song ID format: '' @ sid))
      | Inr object_id \<Rightarrow>
          reraise ''Failed to get song: ''
            (case songs_fault db of
               Some m \<Rightarrow> Inl (PyMongoError m)
             | None \<Rightarrow>
                 (case find_one (songs_collection db)
                         [(''_id'', POid object_id), (''username'', PStr user)] of
                    None \<Rightarrow> Inr None
                  | Some song_data \<Rightarrow>
                      if song_data \<noteq> [] then
                        (case from_dict song_data now of Inl e \<Rightarrow> Inl e | Inr s \<Rightarrow> Inr (Some s))
                      else Inr None)))"

definition db_update_song ::
  "songs_database \<Rightarrow> string \<Rightarrow> string \<Rightarrow> (string \<times> pyval) list \<Rightarrow> timestamp \<Rightarrow>
   (exn + bool) \<times> songs_database" where
  "db_update_song db user sid kwargs now =
     (if \<not> connected db then (Inl not_connected, db)
      else case get_song_by_id db user sid now of
        Inl e \<Rightarrow> (reraise ''Failed to update song: '' (Inl e), db)
      | Inr None \<Rightarrow> (Inr False, db)
      | Inr (Some song) \<Rightarrow>
          (case update_fields song kwargs now of
             (Inl e, song') \<Rightarrow> (reraise ''Failed to update song: '' (Inl e), db)
           | (Inr _, song') \<Rightarrow>
               (case ObjectId sid of
                  Inl e \<Rightarrow> (Inl (DatabaseError (''Invalid song ID format: '' @ sid)), db)
                | Inr object_id \<Rightarrow>
                    (case songs_fault db of
                       Some m \<Rightarrow> (reraise ''Failed to update song: '' (Inl (PyMongoError m)), db)
                     | None \<Rightarrow>
                         (case update_one (songs_collection db)
                                 [(''_id'', POid object_id), (''username'', PStr user)]
                                 (to_dict song') of
                            Inl e \<Rightarrow> (reraise ''Failed to update song: '' (Inl e), db)
                          | Inr (modified_count, coll) \<Rightarrow>
                              (Inr (modified_count > 0), db\<lparr>songs_collection := coll\<rparr>))))))"

definition db_delete_song ::
  "songs_database \<Rightarrow> string \<Rightarrow> string \<Rightarrow> timestamp \<Rightarrow> (exn + song option) \<times> songs_database" where
  "db_delete_song db user sid now =
     (if \<not> connected db then (Inl not_connected, db)
      else case get_song_by_id db user sid now of
        Inl e \<Rightarrow> (reraise ''Failed to delete song: '' (Inl e), db)
      | Inr None \<Rightarrow> (Inr None, db)
      | Inr (Some song) \<Rightarrow>
          (case ObjectId sid of
             Inl e \<Rightarrow> (Inl (DatabaseError (''Invalid song ID format: '' @ sid)), db)
           | Inr object_id \<Rightarrow>
               (case songs_fault db of
                  Some m \<Rightarrow> (reraise ''Failed to delete song: '' (Inl (PyMongoError m)), db)
                | None \<Rightarrow>
                    (case delete_one (songs_collection db)
                            [(''_id'', POid object_id), (''username'', PStr user)] of
                       (deleted_count, coll) \<Rightarrow>
                         (if deleted_count > 0 then Inr (Some song) else Inr None,
                          db\<lparr>songs_collection := coll\<rparr>)))))"

definition add_history_entry ::
  "songs_database \<Rightarrow> history_entry \<Rightarrow> (exn + pyval) \<times> songs_database" where
  "add_history_entry db entry =
     (if \<not> connected db then (Inl not_connected, db)
      else
        let entry_data = entry_to_dict entry in
        case history_fault db of
          Some m \<Rightarrow> (reraise ''Failed to add history entry: '' (Inl (PyMongoError m)), db)
        | None \<Rightarrow>
            (case insert_one (history_collection db) (next_oid db) entry_data of
               Inl e \<Rightarrow> (reraise ''Failed to add history entry: '' (Inl e), db)
             | Inr (inserted_id, coll, n) \<Rightarrow>
                 let db' = db\<lparr>history_collection := coll, next_oid := n\<rparr> in
                 if truthy inserted_id then (Inr inserted_id, db')
                 else (reraise ''Failed to add history entry: ''
                         (Inl (DatabaseError ''Failed to insert history entry'')), db')))"

section \<open>The services\<close>

text \<open>
  \<^verbatim>\<open>with DatabaseManager() as db\<close>: a new \<^verbatim>\<open>SongsDatabase\<close> is connected, the
  body runs on it, and the connection is closed on every way out of the body. When
  \<^verbatim>\<open>connect\<close> raises, the body does not run.
\<close>

definition with_DatabaseManager ::
  "songs_database \<Rightarrow> (songs_database \<Rightarrow> (exn + 'a) \<times> songs_database) \<Rightarrow>
   (exn + 'a) \<times> songs_database" where
  "with_DatabaseManager server body =
     (case connect (server\<lparr>connected := False\<rparr>) of
        Inl e \<Rightarrow> (Inl e, server)
      | Inr db \<Rightarrow> (case body db of (r, db') \<Rightarrow> (r, close db')))"

text \<open>
  \<^verbatim>\<open>SongsService._log_history\<close>: whatever the construction of the entry or its
  insertion raises is caught and only logged.
\<close>

definition log_history ::
  "songs_database \<Rightarrow> string \<Rightarrow> string \<Rightarrow> string \<Rightarrow> string \<Rightarrow> timestamp \<Rightarrow> songs_database" where
  "log_history db user act t a now =
     (case HistoryEntry user act t a now None of
        Inl e \<Rightarrow> db
      | Inr entry \<Rightarrow> snd (add_history_entry db entry))"

text \<open>
  The handlers that close each method of \<^verbatim>\<open>SongsService\<close>: the first with a clause
  for \<^verbatim>\<open>ValueError\<close>, the second without.
\<close>

fun service_except :: "string \<Rightarrow> string \<Rightarrow> exn \<Rightarrow> exn" where
  "service_except vp dp (ValueError m) = ValueError (vp @ m)"
| "service_except vp dp (DatabaseError m) = DatabaseError (dp @ m)"
| "service_except vp dp e = Exception (''Unexpected error: '' @ message e)"

fun service_except_db :: "string \<Rightarrow> exn \<Rightarrow> exn" where
  "service_except_db dp (DatabaseError m) = DatabaseError (dp @ m)"
| "service_except_db dp e = Exception (''Unexpected error: '' @ message e)"

definition handle :: "(exn \<Rightarrow> exn) \<Rightarrow> (exn + 'a) \<times> songs_database \<Rightarrow> (exn + 'a) \<times> songs_database" where
  "handle h res = (case res of (Inl e, db) \<Rightarrow> (Inl (h e), db) | (Inr x, db) \<Rightarrow> (Inr x, db))"

definition service_add_song ::
  "songs_database \<Rightarrow> string \<Rightarrow> string \<Rightarrow> string \<Rightarrow> string option \<Rightarrow> int option \<Rightarrow> int option \<Rightarrow>
   timestamp \<Rightarrow> (exn + bool) \<times> songs_database" where
  "service_add_song server user t a g y d now =
     handle (service_except ''Invalid song data: '' ''Failed to add song: '')
       (case Song t a user g y d now now None of
          Inl e \<Rightarrow> (Inl e, server)
        | Inr song \<Rightarrow>
            with_DatabaseManager server (\<lambda>db.
              case db_add_song db song of
                (Inl e, db') \<Rightarrow> (Inl e, db')
              | (Inr new_id, db') \<Rightarrow> (Inr True, log_history db' user ''added'' t a now)))"


definition service_get_song ::
  "songs_database \<Rightarrow> string \<Rightarrow> string \<Rightarrow> timestamp \<Rightarrow> (exn + song option) \<times> songs_database" where
  "service_get_song server user sid now =
     handle (service_except_db ''Failed to get song: '')
       (with_DatabaseManager server (\<lambda>db.
          case get_song_by_id db user sid now of
            Inl e \<Rightarrow> (Inl e, db)
          | Inr None \<Rightarrow> (Inr None, db)
          | Inr (Some song) \<Rightarrow>
              (Inr (Some song), log_history db user ''viewed'' (title song) (artist song) now)))"

definition service_update_song ::
  "songs_database \<Rightarrow> string \<Rightarrow> string \<Rightarrow> (string \<times> pyval) list \<Rightarrow> timestamp \<Rightarrow>
   (exn + bool) \<times> songs_database" where
  "service_update_song server user sid kwargs now =
     handle (service_except ''Invalid update: '' ''Failed to update song: '')
       (let update_data = filter (\<lambda>kv. snd kv \<noteq> PNone) kwargs in
        if update_data = [] then (Inl (ValueError ''No update data provided''), server)
        else
          with_DatabaseManager server (\<lambda>db.
            case get_song_by_id db user sid now of
              Inl e \<Rightarrow> (Inl e, db)
            | Inr None \<Rightarrow> (Inr False, db)
            | Inr (Some original_song) \<Rightarrow>
                (case db_update_song db user sid update_data now of
                   (Inl e, db') \<Rightarrow> (Inl e, db')
                 | (Inr success, db') \<Rightarrow>
                     (Inr success,
                      if success then
                        log_history db' user ''updated'' (title original_song)
                          (artist original_song) now
                      else db'))))"

definition service_delete_song ::
  "songs_database \<Rightarrow> string \<Rightarrow> string \<Rightarrow> timestamp \<Rightarrow> (exn + bool) \<times> songs_database" where
  "service_delete_song server user sid now =
     handle (service_except_db ''Failed to delete song: '')
       (with_DatabaseManager server (\<lambda>db.
          case db_delete_song db user sid now of
            (Inl e, db') \<Rightarrow> (Inl e, db')
          | (Inr None, db') \<Rightarrow> (Inr False, db')
          | (Inr (Some deleted_song), db') \<Rightarrow>
              (Inr True,
               log_history db' user ''deleted'' (title deleted_song) (artist deleted_song) now)))"

text \<open>
  \<^verbatim>\<open>PlaybackService.play_song\<close>: the song is fetched through the service, the play
  is logged in a second session, and the outer handler turns every exception into
  \<^verbatim>\<open>False\<close>.
\<close>

definition play_song ::
  "songs_database \<Rightarrow> string \<Rightarrow> string \<Rightarrow> timestamp \<Rightarrow> (exn + bool) \<times> songs_database" where
  "play_song server user sid now =
     (case service_get_song server user sid now of
        (Inl e, server') \<Rightarrow> (Inr False, server')
      | (Inr None, server') \<Rightarrow> (Inr False, server')
      | (Inr (Some song), server') \<Rightarrow>
          (case with_DatabaseManager server' (\<lambda>db.
                  (Inr (), log_history db user ''played'' (title song) (artist song) now)) of
             (Inl e, server'') \<Rightarrow> (Inr False, server'')
           | (Inr _, server'') \<Rightarrow> (Inr True, server'')))"

section \<open>Notions used in the properties\<close>

text \<open>The record as a round trip through the document form returns it.\<close>

definition trimmed :: "song \<Rightarrow> song" where
  "trimmed s = s\<lparr>title := strip (title s), artist := strip (artist s),
      username := strip (username s),
      genre := (case genre s of None \<Rightarrow> None
                | Some g \<Rightarrow> if g = [] then None else Some (strip g))\<rparr>"

text \<open>
  The title and the artist of every stored document are trimmed, as \<open>to_dict\<close> writes
  them; the repository keeps it so.
\<close>

definition trimmed_field :: "document \<Rightarrow> string \<Rightarrow> bool" where
  "trimmed_field d k = (case map_of d k of Some (PStr t) \<Rightarrow> strip t = t | _ \<Rightarrow> True)"

definition trimmed_doc :: "document \<Rightarrow> bool" where
  "trimmed_doc d = (trimmed_field d ''title'' \<and> trimmed_field d ''artist'')"

definition trimmed_store :: "songs_database \<Rightarrow> bool" where
  "trimmed_store db = list_all trimmed_doc (songs_collection db)"









section \<open>Sample data\<close>

definition sample_song :: song where
  "sample_song = \<lparr>title = ''Song 1'', artist = ''Artist'', username = ''alice'', genre = None,
     year = Some 2000, duration = None, created_at = 1, updated_at = 1, song_id = None\<rparr>"

definition untrimmed_song :: song where
  "untrimmed_song = \<lparr>title = '' Song 1'', artist = ''Artist'', username = ''alice'', genre = None,
     year = None, duration = None, created_at = 1, updated_at = 1, song_id = None\<rparr>"


text \<open>A connected store that holds one song of \<open>alice\<close>.\<close>

definition sample_sid :: string where
  "sample_sid = ''0123456789abcdef01234567''"

definition sample_oid :: objid where
  "sample_oid = [1, 35, 69, 103, 137, 171, 205, 239, 1, 35, 69, 103]"

definition sample_doc :: document where
  "sample_doc = [(''_id'', POid sample_oid), (''title'', PStr ''Song 1''),
     (''artist'', PStr ''Artist''), (''username'', PStr ''alice''),
     (''created_at'', PTime 1), (''updated_at'', PTime 1), (''year'', PInt 2000)]"

definition sample_db :: songs_database where
  "sample_db = \<lparr>connected = True, songs_collection = [sample_doc], history_collection = [],
     next_oid = 1, ping_fault = None, songs_fault = None, history_fault = None\<rparr>"

definition stored_song :: song where
  "stored_song = \<lparr>title = ''Song 1'', artist = ''Artist'', username = ''alice'', genre = None,
     year = Some 2000, duration = None, created_at = 1, updated_at = 1,
     song_id = Some sample_oid\<rparr>"

text \<open>A store whose one document has a title that starts with a blank.\<close>

definition untrimmed_doc :: document where
  "untrimmed_doc = [(''_id'', POid sample_oid), (''title'', PStr '' Song 1''),
     (''artist'', PStr ''Artist''), (''username'', PStr ''alice''),
     (''created_at'', PTime 1), (''updated_at'', PTime 1)]"

definition untrimmed_db :: songs_database where
  "untrimmed_db = sample_db\<lparr>songs_collection := [untrimmed_doc]\<rparr>"

definition untrimmed_stored :: song where
  "untrimmed_stored = \<lparr>title = '' Song 1'', artist = ''Artist'', username = ''alice'',
     genre = None, year = None, duration = None, created_at = 1, updated_at = 1,
     song_id = Some sample_oid\<rparr>"

text \<open>The same store with a second song, of \<open>bob\<close>.\<close>

definition other_oid :: objid where
  "other_oid = [170, 170, 170, 170, 170, 170, 170, 170, 170, 170, 170, 170]"

definition other_doc :: document where
  "other_doc = [(''_id'', POid other_oid), (''title'', PStr ''Other''),
     (''artist'', PStr ''Band''), (''username'', PStr ''bob''),
     (''created_at'', PTime 3), (''updated_at'', PTime 3)]"

definition other_song :: song where
  "other_song = \<lparr>title = ''Other'', artist = ''Band'', username = ''bob'', genre = None,
     year = None, duration = None, created_at = 3, updated_at = 3, song_id = Some other_oid\<rparr>"

definition two_owner_db :: songs_database where
  "two_owner_db = sample_db\<lparr>songs_collection := [sample_doc, other_doc]\<rparr>"



section \<open>Properties of the record model\<close>

lemma dropWhile_rev_dropWhile:
  "dropWhile P (rev (dropWhile P (rev (dropWhile P xs)))) =
   rev (dropWhile P (rev (dropWhile P xs)))"
proof (cases "rev (dropWhile P (rev (dropWhile P xs)))")
  case Nil
  show ?thesis unfolding Nil by simp
next
  case (Cons y ys)
  let ?u = "dropWhile P xs"
  have "\<exists>zs. ?u = rev (dropWhile P (rev ?u)) @ zs"
    by (metis rev_append rev_rev_ident takeWhile_dropWhile_id)
  then obtain zs where u: "?u = (y # ys) @ zs" using Cons by auto
  then have "?u \<noteq> []" by auto
  then have "\<not> P (hd ?u)" by (metis hd_dropWhile)
  with u have "\<not> P y" by simp
  then show ?thesis using Cons by simp
qed

lemma strip_strip: "strip (strip s) = strip s"
  unfolding strip_def by (simp add: dropWhile_rev_dropWhile)

lemma strip_Nil: "strip [] = []"
  by (simp add: strip_def)

lemma validate_sample_song: "validate sample_song = Inr ()"
  by (simp add: sample_song_def validate_def strip_def isspace_def)

text \<open>
  C7, as the code has it: the constructor raises \<open>ValueError\<close> exactly when the title,
  the artist or the user name is empty after trimming, the year lies outside
  1000..3000 or the duration is negative, and returns the record otherwise. The two
  timestamps are not compared.
\<close>

theorem Song_raises_iff_field_invalid:
  "(if strip t = [] \<or> strip a = [] \<or> strip u = []
       \<or> (case y of None \<Rightarrow> False | Some n \<Rightarrow> n < 1000 \<or> 3000 < n)
       \<or> (case d of None \<Rightarrow> False | Some n \<Rightarrow> n < 0)
    then \<exists>m. Song t a u g y d c up i = Inl (ValueError m)
    else Song t a u g y d c up i =
           Inr \<lparr>title = t, artist = a, username = u, genre = g, year = y, duration = d,
                created_at = c, updated_at = up, song_id = i\<rparr>)"
  by (auto simp: Song_def validate_def Let_def strip_Nil split: option.splits)

theorem Song_raises_iff_field_invalid_witness:
  "\<exists>m. Song ''Song 1'' ''Artist'' ''alice'' None (Some 5000) None 1 1 None = Inl (ValueError m)"
  using Song_raises_iff_field_invalid
    [of "''Song 1''" "''Artist''" "''alice''" "Some 5000" None None 1 1 None]
  by simp

text \<open>
  C7 as stated fails: a record whose \<open>updated_at\<close> is earlier than its \<open>created_at\<close>
  is constructed without an error.
\<close>

theorem Song_timestamp_order_counterexample:
  "Song ''Song 1'' ''Artist'' ''alice'' None None None 2 1 None =
     Inr \<lparr>title = ''Song 1'', artist = ''Artist'', username = ''alice'', genre = None,
          year = None, duration = None, created_at = 2, updated_at = 1, song_id = None\<rparr>"
  by (simp add: Song_def validate_def strip_def isspace_def)

lemma validate_trimmed: "validate s = Inr () \<Longrightarrow> validate (trimmed s) = Inr ()"
  by (auto simp: validate_def trimmed_def strip_strip split: if_splits)

lemma map_of_to_dict:
  "map_of (to_dict s) ''title'' = Some (PStr (strip (title s)))"
  "map_of (to_dict s) ''artist'' = Some (PStr (strip (artist s)))"
  "map_of (to_dict s) ''username'' = Some (PStr (strip (username s)))"
  "map_of (to_dict s) ''created_at'' = Some (PTime (created_at s))"
  "map_of (to_dict s) ''updated_at'' = Some (PTime (updated_at s))"
  "map_of (to_dict s) ''genre'' =
     (case genre s of None \<Rightarrow> None | Some g \<Rightarrow> if g = [] then None else Some (PStr (strip g)))"
  "map_of (to_dict s) ''year'' = map_option PInt (year s)"
  "map_of (to_dict s) ''duration'' = map_option PInt (duration s)"
  "map_of (to_dict s) ''_id'' = map_option POid (song_id s)"
  by (simp_all add: to_dict_def split: option.splits)

lemma from_dict_to_dict:
  assumes "validate s = Inr ()"
  shows "from_dict (to_dict s) now = Inr (trimmed s)"
proof -
  have v: "validate (trimmed s) = Inr ()" using assms by (rule validate_trimmed)
  have "from_dict (to_dict s) now =
     Song (strip (title s)) (strip (artist s)) (strip (username s))
       (case genre s of None \<Rightarrow> None | Some g \<Rightarrow> if g = [] then None else Some (strip g))
       (year s) (duration s) (created_at s) (updated_at s) (song_id s)"
    by (simp add: from_dict_def map_of_to_dict get_str_def get_time_def get_opt_str_def
        get_opt_int_def get_opt_oid_def split: option.splits)
  also have "\<dots> = Inr (trimmed s)"
  proof -
    have "\<lparr>title = strip (title s), artist = strip (artist s), username = strip (username s),
            genre = (case genre s of None \<Rightarrow> None
                     | Some g \<Rightarrow> if g = [] then None else Some (strip g)),
            year = year s, duration = duration s, created_at = created_at s,
            updated_at = updated_at s, song_id = song_id s\<rparr> = trimmed s"
      by (cases s) (simp add: trimmed_def)
    then show ?thesis using v by (simp add: Song_def)
  qed
  finally show ?thesis .
qed

lemma trimmed_id:
  assumes "strip (title s) = title s" "strip (artist s) = artist s"
    "strip (username s) = username s"
    "case genre s of None \<Rightarrow> True | Some g \<Rightarrow> g \<noteq> [] \<and> strip g = g"
  shows "trimmed s = s"
  using assms by (cases s) (auto simp: trimmed_def split: option.splits)

text \<open>
  C6, as the code has it: a valid record comes back from the document form with its
  title, artist, user name and genre trimmed and an empty genre absent, so it comes
  back equal when these are trimmed already and the genre is not the empty string;
  every other field, the identifier included, is returned as it was. An absent genre,
  year, duration or identifier has no key in the document.
\<close>

theorem from_dict_to_dict_trimmed:
  assumes "validate s = Inr ()"
  shows "from_dict (to_dict s) now = Inr (trimmed s)
     \<and> ((strip (title s) = title s \<and> strip (artist s) = artist s
          \<and> strip (username s) = username s
          \<and> (case genre s of None \<Rightarrow> True | Some g \<Rightarrow> g \<noteq> [] \<and> strip g = g))
         \<longrightarrow> from_dict (to_dict s) now = Inr s)
     \<and> (genre s = None \<longrightarrow> map_of (to_dict s) ''genre'' = None)
     \<and> (year s = None \<longrightarrow> map_of (to_dict s) ''year'' = None)
     \<and> (duration s = None \<longrightarrow> map_of (to_dict s) ''duration'' = None)
     \<and> (song_id s = None \<longrightarrow> map_of (to_dict s) ''_id'' = None)"
  using from_dict_to_dict [OF assms, of now] trimmed_id [of s]
  by (simp add: map_of_to_dict)

theorem from_dict_to_dict_trimmed_witness:
  "validate sample_song = Inr () \<and> from_dict (to_dict sample_song) 7 = Inr sample_song
     \<and> map_of (to_dict sample_song) ''genre'' = None"
proof -
  have t: "strip (title sample_song) = title sample_song"
    "strip (artist sample_song) = artist sample_song"
    "strip (username sample_song) = username sample_song"
    by (simp_all add: sample_song_def strip_def isspace_def)
  have g: "genre sample_song = None"
    by (simp add: sample_song_def)
  have c: "case genre sample_song of None \<Rightarrow> True | Some g \<Rightarrow> g \<noteq> [] \<and> strip g = g"
    by (simp add: g)
  show ?thesis
    using from_dict_to_dict_trimmed [OF validate_sample_song, of 7] validate_sample_song t g c
    by blast
qed

text \<open>
  C6 as stated fails: a valid record whose title starts with a blank does not come
  back equal.
\<close>

theorem roundtrip_untrimmed_counterexample:
  "validate untrimmed_song = Inr ()
     \<and> from_dict (to_dict untrimmed_song) 7 = Inr (untrimmed_song\<lparr>title := ''Song 1''\<rparr>)
     \<and> from_dict (to_dict untrimmed_song) 7 \<noteq> Inr untrimmed_song"
proof -
  have v: "validate untrimmed_song = Inr ()"
    by (simp add: untrimmed_song_def validate_def strip_def isspace_def)
  have t: "trimmed untrimmed_song = untrimmed_song\<lparr>title := ''Song 1''\<rparr>"
    by (simp add: untrimmed_song_def trimmed_def strip_def isspace_def)
  have "from_dict (to_dict untrimmed_song) 7 = Inr (untrimmed_song\<lparr>title := ''Song 1''\<rparr>)"
    using from_dict_to_dict [OF v, of 7] t by simp
  moreover have "untrimmed_song\<lparr>title := ''Song 1''\<rparr> \<noteq> untrimmed_song"
    by (simp add: untrimmed_song_def)
  ultimately show ?thesis using v by simp
qed

lemma setattr_Inl: "setattr self key v = Inl e \<Longrightarrow> e = TypeError key"
  unfolding setattr_def by (simp split: if_splits pyval.splits)

lemma update_fields_outcome:
  "update_fields self kwargs now = (r, self') \<Longrightarrow> \<forall>k. r \<noteq> Inl (TypeError k) \<Longrightarrow>
     r = validate self' \<and> updated_at self' = now"
proof (induction self kwargs now rule: update_fields.induct)
  case (1 self now)
  then show ?case by (auto simp: Let_def)
next
  case (2 self key v kwargs now)
  then show ?case
    by (auto split: if_splits sum.splits dest: setattr_Inl)
qed

section \<open>Properties of the repository\<close>

lemma ObjectId_sample_sid: "ObjectId sample_sid = Inr sample_oid"
  by (simp add: ObjectId_def sample_sid_def sample_oid_def hex_val_def ascii_space_def)

lemma ObjectId_xyz: "ObjectId ''xyz'' = Inl (InvalidId ''xyz'')"
  by (simp add: ObjectId_def)

lemma from_dict_sample_doc: "from_dict sample_doc now = Inr stored_song"
  by (simp add: from_dict_def sample_doc_def stored_song_def get_str_def get_time_def
      get_opt_str_def get_opt_int_def get_opt_oid_def Song_def validate_def strip_def
      isspace_def)

lemma find_one_sample:
  "find_one [sample_doc] [(''_id'', POid sample_oid), (''username'', PStr ''alice'')] =
     Some sample_doc"
  by (simp add: find_one_def matches_def sample_doc_def)

lemma get_song_by_id_sample:
  "get_song_by_id sample_db ''alice'' sample_sid now = Inr (Some stored_song)"
proof -
  have "sample_doc \<noteq> []" by (simp add: sample_doc_def)
  then show ?thesis
    by (simp add: get_song_by_id_def sample_db_def ObjectId_sample_sid find_one_sample
        from_dict_sample_doc reraise_def)
qed



























text \<open>
  C8, as the code has it: an identifier that \<open>ObjectId\<close> rejects makes the three
  operations raise \<open>DatabaseError\<close>, the class every store fault is raised as; only
  the text tells them apart. The store is left as it was.
\<close>

theorem invalid_id_raises_DatabaseError:
  assumes "ObjectId sid = Inl e" and "connected db"
  shows "get_song_by_id db user sid now =
           Inl (DatabaseError (''Invalid song ID format: '' @ sid))
     \<and> db_update_song db user sid kwargs now =
           (Inl (DatabaseError (''Failed to update song: Invalid song ID format: '' @ sid)), db)
     \<and> db_delete_song db user sid now =
           (Inl (DatabaseError (''Failed to delete song: Invalid song ID format: '' @ sid)), db)"
  using assms
  by (simp add: get_song_by_id_def db_update_song_def db_delete_song_def reraise_def)

theorem invalid_id_raises_DatabaseError_witness:
  "get_song_by_id sample_db ''alice'' ''xyz'' 5 =
     Inl (DatabaseError (''Invalid song ID format: '' @ ''xyz''))
   \<and> db_update_song sample_db ''alice'' ''xyz'' [(''title'', PStr ''New'')] 5 =
     (Inl (DatabaseError (''Failed to update song: Invalid song ID format: '' @ ''xyz'')),
      sample_db)
   \<and> db_delete_song sample_db ''alice'' ''xyz'' 5 =
     (Inl (DatabaseError (''Failed to delete song: Invalid song ID format: '' @ ''xyz'')),
      sample_db)"
proof -
  have c: "connected sample_db" by (simp add: sample_db_def)
  show ?thesis by (rule invalid_id_raises_DatabaseError [OF ObjectId_xyz c])
qed

text \<open>
  C8 as stated fails: the malformed identifier \<open>xyz\<close> and a fault of the store are
  both reported as \<open>DatabaseError\<close>, and neither is a \<open>ValueError\<close>.
\<close>

theorem invalid_id_error_kind_counterexample:
  "get_song_by_id sample_db ''alice'' ''xyz'' 5 =
     Inl (DatabaseError ''Invalid song ID format: xyz'')
   \<and> get_song_by_id (sample_db\<lparr>songs_fault := Some ''down''\<rparr>) ''alice'' sample_sid 5 =
     Inl (DatabaseError ''Failed to get song: down'')
   \<and> \<not> is_ValueError (DatabaseError ''Invalid song ID format: xyz'')"
  by (simp add: get_song_by_id_def sample_db_def ObjectId_xyz ObjectId_sample_sid reraise_def)

lemma find_one_other_owner:
  assumes "map_of d ''username'' = Some (PStr owner_b)" and "owner_a \<noteq> owner_b"
    and "\<forall>d' \<in> set coll. map_of d' ''_id'' = Some (POid oid) \<longrightarrow> d' = d"
  shows "find_one coll [(''_id'', POid oid), (''username'', PStr owner_a)] = None"
  using assms by (auto simp: find_one_def find_None_iff matches_def)

lemma db_delete_song_absent:
  "get_song_by_id db user sid now = Inr None \<Longrightarrow> db_delete_song db user sid now = (Inr None, db)"
  by (auto simp: db_delete_song_def get_song_by_id_def not_connected_def split: if_splits)

text \<open>
  C3: when the identifier belongs to a record of another owner, \<open>get_song_by_id\<close> and
  \<open>db_delete_song\<close> answer as they do on the store without that record, where the
  identifier exists under no owner; on a connected store without fault the answer is
  \<open>None\<close>; and the delete leaves the store, the other owner's record included, as it
  was. Identifiers are unique in the collection, as the store guarantees.
\<close>

theorem other_owner_is_absent:
  assumes "ObjectId sid = Inr oid"
    and "d \<in> set (songs_collection db)"
    and "map_of d ''_id'' = Some (POid oid)"
    and "map_of d ''username'' = Some (PStr owner_b)"
    and "owner_a \<noteq> owner_b"
    and "\<forall>d' \<in> set (songs_collection db). map_of d' ''_id'' = Some (POid oid) \<longrightarrow> d' = d"
  shows "get_song_by_id db owner_a sid now =
           get_song_by_id (db\<lparr>songs_collection := removeAll d (songs_collection db)\<rparr>) owner_a sid now
     \<and> fst (db_delete_song db owner_a sid now) =
           fst (db_delete_song (db\<lparr>songs_collection := removeAll d (songs_collection db)\<rparr>)
                  owner_a sid now)
     \<and> snd (db_delete_song db owner_a sid now) = db
     \<and> d \<in> set (songs_collection (snd (db_delete_song db owner_a sid now)))
     \<and> (connected db \<and> songs_fault db = None \<longrightarrow>
          get_song_by_id db owner_a sid now = Inr None
          \<and> fst (db_delete_song db owner_a sid now) = Inr None)"
proof -
  let ?q = "[(''_id'', POid oid), (''username'', PStr owner_a)]"
  let ?db' = "db\<lparr>songs_collection := removeAll d (songs_collection db)\<rparr>"
  have f: "find_one (songs_collection db) ?q = None"
    using assms(4,5,6) by (rule find_one_other_owner)
  have f': "find_one (removeAll d (songs_collection db)) ?q = None"
    using assms(4,5,6) by (intro find_one_other_owner [where d = d and owner_b = owner_b]) auto
  have g: "get_song_by_id db owner_a sid now = get_song_by_id ?db' owner_a sid now"
    using assms(1) f f' by (simp add: get_song_by_id_def split: option.splits)
  have n: "get_song_by_id db owner_a sid now = Inr None" if "connected db" "songs_fault db = None"
    using that assms(1) f by (simp add: get_song_by_id_def reraise_def)
  have del: "db_delete_song db owner_a sid now =
      (if \<not> connected db then (Inl not_connected, db)
       else case get_song_by_id db owner_a sid now of
              Inl e \<Rightarrow> (reraise ''Failed to delete song: '' (Inl e), db)
            | Inr x \<Rightarrow> (Inr None, db))"
    using assms(1) f
    by (auto simp: db_delete_song_def get_song_by_id_def reraise_def split: option.splits)
  have del': "db_delete_song ?db' owner_a sid now =
      (if \<not> connected db then (Inl not_connected, ?db')
       else case get_song_by_id ?db' owner_a sid now of
              Inl e \<Rightarrow> (reraise ''Failed to delete song: '' (Inl e), ?db')
            | Inr x \<Rightarrow> (Inr None, ?db'))"
    using assms(1) f'
    by (auto simp: db_delete_song_def get_song_by_id_def reraise_def split: option.splits)
  have s: "snd (db_delete_song db owner_a sid now) = db"
    by (simp add: del split: sum.splits)
  have e: "fst (db_delete_song db owner_a sid now) = fst (db_delete_song ?db' owner_a sid now)"
    by (simp add: del del' g [symmetric] split: sum.splits)
  have "fst (db_delete_song db owner_a sid now) = Inr None"
    if "connected db" "songs_fault db = None"
    using that n by (simp add: del)
  with g e s n assms(2) show ?thesis by simp
qed

theorem other_owner_is_absent_witness:
  "get_song_by_id two_owner_db ''bob'' sample_sid 5 = Inr None
   \<and> fst (db_delete_song two_owner_db ''bob'' sample_sid 5) = Inr None
   \<and> snd (db_delete_song two_owner_db ''bob'' sample_sid 5) = two_owner_db"
proof -
  have a: "sample_doc \<in> set (songs_collection two_owner_db)"
    by (simp add: two_owner_db_def sample_db_def)
  have b: "map_of sample_doc ''_id'' = Some (POid sample_oid)"
    "map_of sample_doc ''username'' = Some (PStr ''alice'')"
    by (simp_all add: sample_doc_def)
  have c: "''bob'' \<noteq> ''alice''" by simp
  have u: "\<forall>d' \<in> set (songs_collection two_owner_db).
      map_of d' ''_id'' = Some (POid sample_oid) \<longrightarrow> d' = sample_doc"
    by (simp add: two_owner_db_def sample_db_def sample_oid_def other_doc_def other_oid_def)
  have k: "connected two_owner_db \<and> songs_fault two_owner_db = None"
    by (simp add: two_owner_db_def sample_db_def)
  show ?thesis
    using other_owner_is_absent [OF ObjectId_sample_sid a b c u, of 5] k by blast
qed

lemma map_of_set_field: "map_of (set_field k v d) = (map_of d)(k \<mapsto> v)"
  by (induction d) (auto simp: fun_eq_iff)

lemma set_fields_Cons: "set_fields d (kv # changes) = set_fields (set_field (fst kv) (snd kv) d) changes"
  by (simp add: set_fields_def)

lemma map_of_set_fields_other:
  "k \<notin> fst ` set changes \<Longrightarrow> map_of (set_fields d changes) k = map_of d k"
proof (induction changes arbitrary: d)
  case Nil
  then show ?case by (simp add: set_fields_def)
next
  case (Cons kv changes)
  then show ?case by (simp add: set_fields_Cons map_of_set_field)
qed

lemma map_of_set_fields_changed:
  "distinct (map fst changes) \<Longrightarrow> (k, v) \<in> set changes \<Longrightarrow>
     map_of (set_fields d changes) k = Some v"
proof (induction changes arbitrary: d)
  case Nil
  then show ?case by simp
next
  case (Cons kv changes)
  show ?case
  proof (cases "kv = (k, v)")
    case True
    then have "k \<notin> fst ` set changes" using Cons.prems(1) by auto
    then show ?thesis
      using True by (simp add: set_fields_Cons map_of_set_fields_other map_of_set_field)
  next
    case False
    then have "(k, v) \<in> set changes" using Cons.prems(2) by simp
    moreover have "distinct (map fst changes)" using Cons.prems(1) by simp
    ultimately show ?thesis by (simp add: set_fields_Cons Cons.IH)
  qed
qed

lemma set_fields_differs:
  assumes "distinct (map fst changes)"
    and "list_ex (\<lambda>kv. map_of d (fst kv) \<noteq> Some (snd kv)) changes"
  shows "set_fields d changes \<noteq> d"
proof -
  from assms(2) obtain k v where kv: "(k, v) \<in> set changes" "map_of d k \<noteq> Some v"
    by (auto simp: list_ex_iff)
  have "map_of (set_fields d changes) k = Some v"
    using assms(1) kv(1) by (rule map_of_set_fields_changed)
  with kv(2) show ?thesis by auto
qed

lemma replace_first_differs:
  "List.find P xs = Some d \<Longrightarrow> y \<noteq> d \<Longrightarrow> replace_first P y xs \<noteq> xs"
  by (induction xs) (auto split: if_splits)

lemma update_one_modified:
  assumes "update_one coll query changes = Inr (n, coll')" and "distinct (map fst changes)"
  shows "(n > 0) = (coll' \<noteq> coll)"
proof (cases "find_one coll query")
  case None
  then show ?thesis using assms(1) by (simp add: update_one_def)
next
  case (Some d)
  show ?thesis
  proof (cases "list_ex (\<lambda>kv. map_of d (fst kv) \<noteq> Some (snd kv)) changes")
    case True
    then have "set_fields d changes \<noteq> d" using assms(2) by (intro set_fields_differs)
    then have "replace_first (matches query) (set_fields d changes) coll \<noteq> coll"
      using Some by (intro replace_first_differs) (simp_all add: find_one_def)
    then show ?thesis
      using assms(1) Some True by (auto simp: update_one_def split: if_splits)
  next
    case False
    then show ?thesis
      using assms(1) Some by (auto simp: update_one_def split: if_splits)
  qed
qed

lemma distinct_to_dict: "distinct (map fst (to_dict s))"
  by (simp add: to_dict_def split: option.splits)

lemma db_update_song_true_iff_changed:
  assumes "fst (db_update_song db user sid kwargs now) = Inr b"
  shows "b = (songs_collection (snd (db_update_song db user sid kwargs now)) \<noteq> songs_collection db)"
  using assms update_one_modified [OF _ distinct_to_dict]
  unfolding db_update_song_def reraise_def
  by (auto split: if_splits sum.splits option.splits prod.splits)

lemma and_then_Inr: "and_then m f = Inr y \<longleftrightarrow> (\<exists>x. m = Inr x \<and> f x = Inr y)"
  by (cases m) auto

lemma Song_Inr:
  assumes "Song t a u g y d c up i = Inr s"
  shows "s = \<lparr>title = t, artist = a, username = u, genre = g, year = y, duration = d,
               created_at = c, updated_at = up, song_id = i\<rparr> \<and> validate s = Inr ()"
proof (cases "validate \<lparr>title = t, artist = a, username = u, genre = g, year = y,
    duration = d, created_at = c, updated_at = up, song_id = i\<rparr>")
  case (Inl e)
  then show ?thesis using assms by (simp add: Song_def)
next
  case (Inr x)
  then show ?thesis using assms by (auto simp: Song_def)
qed

lemma from_dict_Inr:
  assumes "from_dict d now = Inr s"
  shows "get_str d ''title'' [] = Inr (title s)"
    and "get_str d ''artist'' [] = Inr (artist s)"
    and "get_str d ''username'' [] = Inr (username s)"
    and "get_time d ''created_at'' now = Inr (created_at s)"
    and "get_time d ''updated_at'' now = Inr (updated_at s)"
    and "validate s = Inr ()"
  using assms
  by (auto simp: from_dict_def and_then_Inr dest!: Song_Inr)

lemma get_time_cases:
  "get_time d k dflt = Inr t \<Longrightarrow>
     (map_of d k = None \<and> t = dflt) \<or> map_of d k = Some (PTime t)"
  by (auto simp: get_time_def split: option.splits pyval.splits)

lemma get_song_by_id_Some:
  assumes "get_song_by_id db user sid now = Inr (Some s)"
  obtains oid d where "connected db" "songs_fault db = None" "ObjectId sid = Inr oid"
    "find_one (songs_collection db) [(''_id'', POid oid), (''username'', PStr user)] = Some d"
    "d \<noteq> []" "from_dict d now = Inr s"
  using assms
  by (auto simp: get_song_by_id_def reraise_def not_connected_def
      split: if_splits sum.splits option.splits)

lemma db_update_song_found:
  assumes "connected db" "songs_fault db = None" "ObjectId sid = Inr oid"
    and "find_one (songs_collection db) [(''_id'', POid oid), (''username'', PStr user)] = Some d"
    and "d \<noteq> []" "from_dict d now = Inr s"
  shows "db_update_song db user sid kwargs now =
     (case update_fields s kwargs now of
        (Inl e, s') \<Rightarrow> (Inl (DatabaseError (''Failed to update song: '' @ message e)), db)
      | (Inr u, s') \<Rightarrow>
          (case update_one (songs_collection db)
                  [(''_id'', POid oid), (''username'', PStr user)] (to_dict s') of
             Inl e \<Rightarrow> (Inl (DatabaseError (''Failed to update song: '' @ message e)), db)
           | Inr (n, coll) \<Rightarrow> (Inr (n > 0), db\<lparr>songs_collection := coll\<rparr>)))"
  using assms
  by (simp add: db_update_song_def get_song_by_id_def reraise_def
      split: prod.splits sum.splits)

lemma db_update_song_clock:
  assumes "fst (db_update_song db user sid kwargs now) = Inr b"
    and "get_song_by_id db user sid now = Inr (Some s)"
    and "updated_at s \<noteq> now"
  shows "b"
proof -
  from assms(2) obtain oid d where h: "connected db" "songs_fault db = None"
    "ObjectId sid = Inr oid"
    "find_one (songs_collection db) [(''_id'', POid oid), (''username'', PStr user)] = Some d"
    "d \<noteq> []" "from_dict d now = Inr s"
    by (rule get_song_by_id_Some)
  note u = db_update_song_found [OF h, of kwargs]
  obtain r s' where uf: "update_fields s kwargs now = (r, s')" by (cases "update_fields s kwargs now")
  from assms(1) u uf obtain x where r: "r = Inr x" by (cases r) auto
  then have "updated_at s' = now" using update_fields_outcome [OF uf] by simp
  then have m: "(''updated_at'', PTime now) \<in> set (to_dict s')"
    by (simp add: to_dict_def)
  have "map_of d ''updated_at'' \<noteq> Some (PTime now)"
    using get_time_cases [OF from_dict_Inr(5) [OF h(6)]] assms(3) by auto
  with m have ex: "list_ex (\<lambda>kv. map_of d (fst kv) \<noteq> Some (snd kv)) (to_dict s')"
    unfolding list_ex_iff by force
  show ?thesis
    using assms(1) u uf r h(4) ex
    by (auto simp: update_one_def split: if_splits sum.splits prod.splits)
qed

text \<open>
  C2, as the code has it: the repository's update returns \<open>True\<close> exactly when the
  stored collection has changed, which is what the store counts as a modification.
  Since \<open>update_fields\<close> always writes a new \<open>updated_at\<close>, an update of a record that
  is found returns \<open>True\<close> whenever the clock reading differs from the record's
  \<open>updated_at\<close>, whatever fields are supplied, identical ones included.
\<close>

theorem db_update_song_true_iff_store_modified:
  "(fst (db_update_song db user sid kwargs now) = Inr b \<longrightarrow>
      b = (songs_collection (snd (db_update_song db user sid kwargs now)) \<noteq> songs_collection db))
   \<and> (fst (db_update_song db user sid kwargs now) = Inr b
        \<and> get_song_by_id db user sid now = Inr (Some s) \<and> updated_at s \<noteq> now \<longrightarrow> b)"
  using db_update_song_true_iff_changed [of db user sid kwargs now b]
    db_update_song_clock [of db user sid kwargs now b s]
  by blast

lemma db_update_song_sample:
  "fst (db_update_song sample_db ''alice'' sample_sid [(''title'', PStr ''Song 1'')] 2) = Inr True"
proof -
  have c: "connected sample_db" "songs_fault sample_db = None"
    "songs_collection sample_db = [sample_doc]"
    by (simp_all add: sample_db_def)
  have d: "sample_doc \<noteq> []" by (simp add: sample_doc_def)
  have f: "find_one (songs_collection sample_db)
      [(''_id'', POid sample_oid), (''username'', PStr ''alice'')] = Some sample_doc"
    by (simp add: c find_one_sample)
  have uf: "update_fields stored_song [(''title'', PStr ''Song 1'')] 2 =
      (Inr (), stored_song\<lparr>updated_at := 2\<rparr>)"
    by (simp add: stored_song_def validate_def strip_def isspace_def hasattr_def setattr_def)
  have td: "to_dict (stored_song\<lparr>updated_at := 2\<rparr>) =
      [(''title'', PStr ''Song 1''), (''artist'', PStr ''Artist''), (''username'', PStr ''alice''),
       (''created_at'', PTime 1), (''updated_at'', PTime 2), (''year'', PInt 2000),
       (''_id'', POid sample_oid)]"
    by (simp add: to_dict_def stored_song_def strip_def isspace_def)
  have uo: "update_one [sample_doc] [(''_id'', POid sample_oid), (''username'', PStr ''alice'')]
      (to_dict (stored_song\<lparr>updated_at := 2\<rparr>)) =
      Inr (1, [set_fields sample_doc (to_dict (stored_song\<lparr>updated_at := 2\<rparr>))])"
    unfolding update_one_def find_one_sample td
    by (simp add: sample_doc_def matches_def)
  show ?thesis
    by (simp add: db_update_song_found [OF c(1,2) ObjectId_sample_sid f d from_dict_sample_doc]
        uf c(3) uo del: update_fields.simps)
qed

theorem db_update_song_true_iff_store_modified_witness:
  "fst (db_update_song sample_db ''alice'' sample_sid [(''title'', PStr ''Song 1'')] 2) = Inr True
   \<and> songs_collection (snd (db_update_song sample_db ''alice'' sample_sid
        [(''title'', PStr ''Song 1'')] 2)) \<noteq> songs_collection sample_db"
  using db_update_song_true_iff_store_modified
    [of sample_db "''alice''" sample_sid "[(''title'', PStr ''Song 1'')]" 2 True stored_song]
    db_update_song_sample
  by blast

text \<open>
  C2 as stated fails: the stored record has the title \<open>Song 1\<close>, and an update that
  supplies the title \<open>Song 1\<close> again at a later clock reading returns \<open>True\<close>.
\<close>

theorem noop_update_returns_true_counterexample:
  "get_song_by_id sample_db ''alice'' sample_sid 2 = Inr (Some stored_song)
   \<and> title stored_song = ''Song 1''
   \<and> fst (db_update_song sample_db ''alice'' sample_sid [(''title'', PStr ''Song 1'')] 2) = Inr True"
  using get_song_by_id_sample [of 2] db_update_song_sample
  by (simp add: stored_song_def)

lemma from_dicts_Inr:
  "from_dicts docs now = Inr songs \<Longrightarrow> list_all2 (\<lambda>d s. from_dict d now = Inr s) docs songs"
proof (induction docs arbitrary: songs)
  case Nil
  then show ?case by simp
next
  case (Cons d docs)
  then show ?case by (auto split: sum.splits)
qed

lemma matches_Nil: "matches [] d"
  by (simp add: matches_def)

lemma sort_desc_sorted:
  "sorted_wrt (\<lambda>d d'. time_rank key d \<ge> time_rank key d') (sort_desc key docs)"
proof -
  have "sorted (map (\<lambda>d. - time_rank key d) (sort_desc key docs))"
    unfolding sort_desc_def by (rule sorted_sort_key)
  then show ?thesis by (simp add: sorted_map)
qed

lemma time_rank_created_at:
  assumes "from_dict d now = Inr s" and "map_of d ''created_at'' \<noteq> None"
  shows "time_rank ''created_at'' d = int (created_at s) + 1"
  using get_time_cases [OF from_dict_Inr(4) [OF assms(1)]] assms(2)
  by (auto simp: time_rank_def)

lemma decoded_sorted:
  assumes "list_all2 (\<lambda>d s. from_dict d now = Inr s) docs songs"
    and "\<forall>d \<in> set docs. map_of d ''created_at'' \<noteq> None"
    and "sorted_wrt (\<lambda>d d'. time_rank ''created_at'' d \<ge> time_rank ''created_at'' d') docs"
  shows "sorted_wrt (\<lambda>t t'. t \<ge> t') (map created_at songs)"
proof -
  have r: "map (time_rank ''created_at'') docs = map (\<lambda>s. int (created_at s) + 1) songs"
    using assms(1,2)
    by (induction docs songs rule: list_all2_induct) (auto simp: time_rank_created_at)
  have "sorted_wrt (\<lambda>x y. x \<ge> y) (map (time_rank ''created_at'') docs)"
    using assms(3) by (simp add: sorted_wrt_map)
  then have "sorted_wrt (\<lambda>x y. x \<ge> y) (map (\<lambda>s. int (created_at s) + 1) songs)"
    by (simp add: r)
  then show ?thesis by (simp add: sorted_wrt_map)
qed

lemma get_songs_all_owners:
  "get_songs db (Some []) limit now =
     (if \<not> connected db then Inl not_connected
      else case songs_fault db of
        Some m \<Rightarrow> Inl (DatabaseError (''Failed to get songs: '' @ m))
      | None \<Rightarrow>
          reraise ''Failed to get songs: ''
            (from_dicts
               (case limit of None \<Rightarrow> sort_desc ''created_at'' (songs_collection db)
                | Some n \<Rightarrow>
                    if n \<noteq> 0 then take (nat \<bar>n\<bar>) (sort_desc ''created_at'' (songs_collection db))
                    else sort_desc ''created_at'' (songs_collection db)) now))"
  by (simp add: get_songs_def matches_Nil reraise_def Let_def split: option.splits)

lemma reraise_Inr: "reraise p r = Inr x \<longleftrightarrow> r = Inr x"
  by (cases r) (simp_all add: reraise_def)

lemma get_songs_sorted:
  assumes "get_songs db (Some []) limit now = Inr songs"
    and "\<forall>d \<in> set (songs_collection db). map_of d ''created_at'' \<noteq> None"
  shows "sorted_wrt (\<lambda>t t'. t \<ge> t') (map created_at songs)"
proof -
  let ?all = "sort_desc ''created_at'' (songs_collection db)"
  obtain cursor where c: "from_dicts cursor now = Inr songs"
    and cs: "cursor = ?all \<or> (\<exists>n. cursor = take n ?all)"
    using assms(1) unfolding get_songs_all_owners
    by (auto simp: reraise_Inr split: if_splits option.splits)
  have s: "sorted_wrt (\<lambda>d d'. time_rank ''created_at'' d \<ge> time_rank ''created_at'' d') cursor"
    using cs sort_desc_sorted [of "''created_at''" "songs_collection db"]
    by (auto intro: sorted_wrt_take)
  have "set cursor \<subseteq> set (songs_collection db)"
    using cs by (auto simp: sort_desc_def dest: in_set_takeD)
  then have "\<forall>d \<in> set cursor. map_of d ''created_at'' \<noteq> None"
    using assms(2) by blast
  with from_dicts_Inr [OF c] s show ?thesis by (intro decoded_sorted)
qed

lemma get_songs_complete:
  assumes "get_songs db (Some []) None now = Inr songs"
  shows "length songs = length (songs_collection db)"
    and "\<forall>d \<in> set (songs_collection db). \<exists>s \<in> set songs. from_dict d now = Inr s"
proof -
  let ?all = "sort_desc ''created_at'' (songs_collection db)"
  have c: "from_dicts ?all now = Inr songs"
    using assms unfolding get_songs_all_owners
    by (auto simp: reraise_Inr split: if_splits option.splits)
  note l = from_dicts_Inr [OF c]
  show "length songs = length (songs_collection db)"
    using list_all2_lengthD [OF l] by (simp add: sort_desc_def)
  show "\<forall>d \<in> set (songs_collection db). \<exists>s \<in> set songs. from_dict d now = Inr s"
  proof
    fix d assume "d \<in> set (songs_collection db)"
    then have "d \<in> set ?all" by (simp add: sort_desc_def)
    then obtain i where i: "i < length ?all" "?all ! i = d" by (auto simp: in_set_conv_nth)
    then have "from_dict d now = Inr (songs ! i)" "i < length songs"
      using l by (auto simp: list_all2_conv_all_nth)
    then show "\<exists>s \<in> set songs. from_dict d now = Inr s" by auto
  qed
qed

lemma get_songs_not_ValueError: "get_songs db user limit now \<noteq> Inl (ValueError m)"
  by (auto simp: get_songs_def not_connected_def reraise_def Let_def split: sum.splits)

text \<open>
  C9: \<open>get_songs\<close> with the empty string as owner is \<open>get_songs\<close> without an owner. It
  never raises \<open>ValueError\<close>; what it returns is in descending order of \<open>created_at\<close>
  (the documents carry that field), and without a limit it returns one record for
  every document of the collection, whoever owns it.
\<close>

theorem empty_owner_lists_all_owners:
  "get_songs db (Some []) limit now = get_songs db None limit now
   \<and> (\<forall>m. get_songs db (Some []) limit now \<noteq> Inl (ValueError m))
   \<and> (get_songs db (Some []) limit now = Inr songs
        \<and> (\<forall>d \<in> set (songs_collection db). map_of d ''created_at'' \<noteq> None)
        \<longrightarrow> sorted_wrt (\<lambda>t t'. t \<ge> t') (map created_at songs))
   \<and> (get_songs db (Some []) None now = Inr all_songs
        \<longrightarrow> length all_songs = length (songs_collection db)
          \<and> (\<forall>d \<in> set (songs_collection db). \<exists>s \<in> set all_songs. from_dict d now = Inr s))"
proof -
  have "get_songs db (Some []) limit now = get_songs db None limit now"
    by (simp add: get_songs_def)
  then show ?thesis
    using get_songs_not_ValueError [of db "Some []" limit now]
      get_songs_sorted [of db limit now songs]
      get_songs_complete [of db now all_songs]
    by blast
qed

lemma from_dict_other_doc: "from_dict other_doc now = Inr other_song"
  by (simp add: from_dict_def other_doc_def other_song_def get_str_def get_time_def
      get_opt_str_def get_opt_int_def get_opt_oid_def Song_def validate_def strip_def
      isspace_def)

lemma get_songs_two_owner_db:
  "get_songs two_owner_db (Some []) None 5 = Inr [other_song, stored_song]"
proof -
  have r: "time_rank ''created_at'' sample_doc = 2" "time_rank ''created_at'' other_doc = 4"
    by (simp_all add: time_rank_def sample_doc_def other_doc_def)
  have "sort_desc ''created_at'' [sample_doc, other_doc] = [other_doc, sample_doc]"
    by (simp add: sort_desc_def r)
  then show ?thesis
    unfolding get_songs_all_owners
    by (simp add: two_owner_db_def sample_db_def from_dict_sample_doc from_dict_other_doc
        reraise_def)
qed

theorem empty_owner_lists_all_owners_witness:
  "get_songs two_owner_db (Some []) None 5 = get_songs two_owner_db None None 5
   \<and> get_songs two_owner_db (Some []) None 5 = Inr [other_song, stored_song]
   \<and> sorted_wrt (\<lambda>t t'. t \<ge> t') (map created_at [other_song, stored_song])
   \<and> length [other_song, stored_song] = length (songs_collection two_owner_db)"
proof -
  have c: "\<forall>d \<in> set (songs_collection two_owner_db). map_of d ''created_at'' \<noteq> None"
    by (simp add: two_owner_db_def sample_db_def sample_doc_def other_doc_def)
  show ?thesis
    using empty_owner_lists_all_owners
      [of two_owner_db None 5 "[other_song, stored_song]" "[other_song, stored_song]"]
      get_songs_two_owner_db c
    by blast
qed

section \<open>Properties of the services\<close>

lemma with_DatabaseManager_ok:
  "ping_fault server = None \<Longrightarrow>
     with_DatabaseManager server body =
       (case body (server\<lparr>connected := True\<rparr>) of (r, db') \<Rightarrow> (r, close db'))"
  by (simp add: with_DatabaseManager_def connect_def)

lemma with_DatabaseManager_fail:
  "ping_fault server = Some m \<Longrightarrow>
     with_DatabaseManager server body =
       (Inl (DatabaseError (''Database connection failed: '' @ m)), server)"
  by (simp add: with_DatabaseManager_def connect_def)

lemma add_history_entry_frame:
  "connected (snd (add_history_entry db entry)) = connected db"
  "songs_collection (snd (add_history_entry db entry)) = songs_collection db"
  "ping_fault (snd (add_history_entry db entry)) = ping_fault db"
  "songs_fault (snd (add_history_entry db entry)) = songs_fault db"
  "history_fault (snd (add_history_entry db entry)) = history_fault db"
  by (simp_all add: add_history_entry_def Let_def split: option.splits sum.splits prod.splits)

lemma log_history_frame:
  "connected (log_history db u act t a now) = connected db"
  "songs_collection (log_history db u act t a now) = songs_collection db"
  "ping_fault (log_history db u act t a now) = ping_fault db"
  "songs_fault (log_history db u act t a now) = songs_fault db"
  "history_fault (log_history db u act t a now) = history_fault db"
  by (simp_all add: log_history_def add_history_entry_frame split: sum.splits)


lemma close_frame:
  "songs_collection (close db) = songs_collection db"
  "history_collection (close db) = history_collection db"
  "ping_fault (close db) = ping_fault db"
  "songs_fault (close db) = songs_fault db"
  "history_fault (close db) = history_fault db"
  by (simp_all add: close_def)




lemma service_update_song_ok:
  assumes "ping_fault db = None"
    and "filter (\<lambda>kv. snd kv \<noteq> PNone) kwargs \<noteq> []"
    and "get_song_by_id (db\<lparr>connected := True\<rparr>) u sid now = Inr (Some s)"
    and "db_update_song (db\<lparr>connected := True\<rparr>) u sid
           (filter (\<lambda>kv. snd kv \<noteq> PNone) kwargs) now = (Inr b, db')"
  shows "service_update_song db u sid kwargs now =
           (Inr b, close (if b then log_history db' u ''updated'' (title s) (artist s) now
                          else db'))"
  using assms
  by (simp add: service_update_song_def with_DatabaseManager_ok handle_def Let_def)




lemma get_song_by_id_sample_doc:
  assumes "connected db" "songs_fault db = None" "songs_collection db = [sample_doc]"
  shows "get_song_by_id db ''alice'' sample_sid now = Inr (Some stored_song)"
proof -
  have "sample_doc \<noteq> []" by (simp add: sample_doc_def)
  then show ?thesis
    using assms
    by (simp add: get_song_by_id_def ObjectId_sample_sid find_one_sample
        from_dict_sample_doc reraise_def)
qed































lemma trimmed_doc_to_dict: "trimmed_doc (to_dict s)"
  by (simp add: trimmed_doc_def trimmed_field_def map_of_to_dict strip_strip)

lemma trimmed_doc_with_id: "trimmed_doc ((''_id'', v) # to_dict s)"
  by (simp add: trimmed_doc_def trimmed_field_def map_of_to_dict strip_strip)

lemma trimmed_doc_set_fields: "trimmed_doc (set_fields d (to_dict s))"
proof -
  have "(''title'', PStr (strip (title s))) \<in> set (to_dict s)"
    "(''artist'', PStr (strip (artist s))) \<in> set (to_dict s)"
    by (simp_all add: to_dict_def)
  then have "map_of (set_fields d (to_dict s)) ''title'' = Some (PStr (strip (title s)))"
    "map_of (set_fields d (to_dict s)) ''artist'' = Some (PStr (strip (artist s)))"
    by (simp_all add: map_of_set_fields_changed [OF distinct_to_dict])
  then show ?thesis by (simp add: trimmed_doc_def trimmed_field_def strip_strip)
qed

lemma list_all_replace_first:
  "list_all P xs \<Longrightarrow> P y \<Longrightarrow> list_all P (replace_first Q y xs)"
  by (induction xs) auto

lemma list_all_remove_first: "list_all P xs \<Longrightarrow> list_all P (remove_first Q xs)"
  by (induction xs) auto

lemma trimmed_store_db_add_song:
  "trimmed_store db \<Longrightarrow> trimmed_store (snd (db_add_song db s))"
  by (auto simp: trimmed_store_def db_add_song_def insert_one_def Let_def
      trimmed_doc_to_dict trimmed_doc_with_id split: option.splits if_splits)

lemma trimmed_store_db_update_song:
  "trimmed_store db \<Longrightarrow> trimmed_store (snd (db_update_song db u sid kwargs now))"
  by (auto simp: trimmed_store_def db_update_song_def update_one_def reraise_def
      list_all_replace_first trimmed_doc_set_fields
      split: option.splits if_splits sum.splits prod.splits)

lemma trimmed_store_db_delete_song:
  "trimmed_store db \<Longrightarrow> trimmed_store (snd (db_delete_song db u sid now))"
  by (auto simp: trimmed_store_def db_delete_song_def delete_one_def reraise_def
      list_all_remove_first split: option.splits if_splits sum.splits prod.splits)

lemma trimmed_store_sample_db: "trimmed_store sample_db"
  by (simp add: trimmed_store_def sample_db_def trimmed_doc_def trimmed_field_def
      sample_doc_def strip_def isspace_def)

lemma get_str_cases:
  "get_str d k dflt = Inr t \<Longrightarrow> (map_of d k = None \<and> t = dflt) \<or> map_of d k = Some (PStr t)"
  by (auto simp: get_str_def split: option.splits pyval.splits)

lemma find_one_Some:
  "find_one coll query = Some d \<Longrightarrow> d \<in> set coll \<and> matches query d"
  by (auto simp: find_one_def find_Some_iff)

lemma db_update_song_frame:
  "history_collection (snd (db_update_song db u sid kwargs now)) = history_collection db"
  "history_fault (snd (db_update_song db u sid kwargs now)) = history_fault db"
  "next_oid (snd (db_update_song db u sid kwargs now)) = next_oid db"
  "connected (snd (db_update_song db u sid kwargs now)) = connected db"
  by (simp_all add: db_update_song_def reraise_def
      split: option.splits if_splits sum.splits prod.splits)

lemma log_history_ok:
  assumes "strip u \<noteq> []" "strip act \<noteq> []" "connected db" "history_fault db = None"
  shows "log_history db u act t a now =
     db\<lparr>history_collection := history_collection db @
           [[(''_id'', POid (mk_oid (next_oid db))), (''username'', PStr (strip u)),
             (''action'', PStr (strip act)), (''song_title'', PStr (strip t)),
             (''song_artist'', PStr (strip a)), (''timestamp'', PTime now)]],
        next_oid := Suc (next_oid db)\<rparr>"
proof -
  have "u \<noteq> []" "act \<noteq> []" using assms(1,2) by (auto simp: strip_Nil)
  then have e: "HistoryEntry u act t a now None =
      Inr \<lparr>entry_username = u, action = act, song_title = t, song_artist = a,
           entry_timestamp = now, entry_id = None\<rparr>"
    using assms(1,2) by (simp add: HistoryEntry_def entry_validate_def)
  show ?thesis
    using assms(3,4)
    by (simp add: log_history_def e add_history_entry_def entry_to_dict_def insert_one_def)
qed

lemma strip_updated: "strip ''updated'' = ''updated''"
  by (simp add: strip_def isspace_def)

lemma service_update_song_True:
  assumes "service_update_song db u sid kwargs now = (Inr True, db')"
  obtains orig db2 where "ping_fault db = None"
    "filter (\<lambda>kv. snd kv \<noteq> PNone) kwargs \<noteq> []"
    "get_song_by_id (db\<lparr>connected := True\<rparr>) u sid now = Inr (Some orig)"
    "db_update_song (db\<lparr>connected := True\<rparr>) u sid
       (filter (\<lambda>kv. snd kv \<noteq> PNone) kwargs) now = (Inr True, db2)"
    "db' = close (log_history db2 u ''updated'' (title orig) (artist orig) now)"
proof -
  let ?kw = "filter (\<lambda>kv. snd kv \<noteq> PNone) kwargs"
  let ?db1 = "db\<lparr>connected := True\<rparr>"
  have ne: "?kw \<noteq> []"
    using assms by (auto simp: service_update_song_def handle_def Let_def)
  have pf: "ping_fault db = None"
  proof (cases "ping_fault db")
    case (Some p)
    then show ?thesis
      using assms ne
      by (simp add: service_update_song_def with_DatabaseManager_fail handle_def Let_def)
  qed simp
  note unf = service_update_song_def with_DatabaseManager_ok [OF pf] handle_def Let_def
  obtain orig where g: "get_song_by_id ?db1 u sid now = Inr (Some orig)"
    using assms ne by (cases "get_song_by_id ?db1 u sid now") (auto simp: unf split: option.splits)
  obtain r db2 where up: "db_update_song ?db1 u sid ?kw now = (r, db2)"
    by (cases "db_update_song ?db1 u sid ?kw now")
  have r: "r = Inr True"
    using assms ne g up by (cases r) (auto simp: unf)
  have "db' = close (log_history db2 u ''updated'' (title orig) (artist orig) now)"
    using assms service_update_song_ok [OF pf ne g up [unfolded r]] by simp
  with pf ne g up r that show ?thesis by blast
qed

lemma update_history_entry:
  assumes "service_update_song db u sid kwargs now = (Inr True, db')"
    and "history_fault db = None"
  obtains orig d where
    "get_song_by_id (db\<lparr>connected := True\<rparr>) u sid now = Inr (Some orig)"
    "d \<in> set (songs_collection db)" "from_dict d now = Inr orig"
    "history_collection db' = history_collection db @
         [[(''_id'', POid (mk_oid (next_oid db))), (''username'', PStr (strip u)),
           (''action'', PStr ''updated''), (''song_title'', PStr (strip (title orig))),
           (''song_artist'', PStr (strip (artist orig))), (''timestamp'', PTime now)]]"
proof -
  let ?db1 = "db\<lparr>connected := True\<rparr>"
  from assms(1) obtain orig db2 where h: "ping_fault db = None"
    "get_song_by_id ?db1 u sid now = Inr (Some orig)"
    "db_update_song ?db1 u sid (filter (\<lambda>kv. snd kv \<noteq> PNone) kwargs) now = (Inr True, db2)"
    "db' = close (log_history db2 u ''updated'' (title orig) (artist orig) now)"
    by (rule service_update_song_True)
  from h(2) obtain oid d where g:
    "find_one (songs_collection ?db1) [(''_id'', POid oid), (''username'', PStr u)] = Some d"
    "from_dict d now = Inr orig"
    by (rule get_song_by_id_Some)
  from find_one_Some [OF g(1)] have d: "d \<in> set (songs_collection db)"
    "map_of d ''username'' = Some (PStr u)"
    by (simp_all add: matches_def)
  have v: "validate orig = Inr ()" by (rule from_dict_Inr(6) [OF g(2)])
  have "username orig = u"
    using get_str_cases [OF from_dict_Inr(3) [OF g(2)]] d(2) by auto
  then have su: "strip u \<noteq> []"
    using v by (auto simp: validate_def split: if_splits)
  have f: "history_collection db2 = history_collection db" "history_fault db2 = None"
    "next_oid db2 = next_oid db" "connected db2"
    using db_update_song_frame [of ?db1 u sid "filter (\<lambda>kv. snd kv \<noteq> PNone) kwargs" now]
      h(3) assms(2) by simp_all
  have "history_collection db' = history_collection db @
         [[(''_id'', POid (mk_oid (next_oid db))), (''username'', PStr (strip u)),
           (''action'', PStr ''updated''), (''song_title'', PStr (strip (title orig))),
           (''song_artist'', PStr (strip (artist orig))), (''timestamp'', PTime now)]]"
    unfolding h(4)
    by (simp add: log_history_ok [OF su _ f(4) f(2)] strip_updated f close_def)
  with h(2) d(1) g(2) that show ?thesis by blast
qed

text \<open>
  C10, as the code has it: when the update use-case returns \<open>True\<close> and the history
  collection accepts the entry, exactly one entry is appended; its action is
  \<open>updated\<close> and its title and artist are those of the record as \<open>get_song_by_id\<close>
  returned it before the update, whatever the update assigns, with the white space
  at both ends removed. They are the record's own title and artist when the stored
  documents are trimmed, as the repository writes them.
\<close>

theorem update_logs_pre_update_snapshot:
  assumes "service_update_song db u sid kwargs now = (Inr True, db')"
    and "history_fault db = None"
  shows "\<exists>orig. get_song_by_id (db\<lparr>connected := True\<rparr>) u sid now = Inr (Some orig)
     \<and> history_collection db' = history_collection db @
         [[(''_id'', POid (mk_oid (next_oid db))), (''username'', PStr (strip u)),
           (''action'', PStr ''updated''), (''song_title'', PStr (strip (title orig))),
           (''song_artist'', PStr (strip (artist orig))), (''timestamp'', PTime now)]]
     \<and> (trimmed_store db \<longrightarrow>
          strip (title orig) = title orig \<and> strip (artist orig) = artist orig)"
proof -
  from assms obtain orig d where h:
    "get_song_by_id (db\<lparr>connected := True\<rparr>) u sid now = Inr (Some orig)"
    "d \<in> set (songs_collection db)" "from_dict d now = Inr orig"
    "history_collection db' = history_collection db @
         [[(''_id'', POid (mk_oid (next_oid db))), (''username'', PStr (strip u)),
           (''action'', PStr ''updated''), (''song_title'', PStr (strip (title orig))),
           (''song_artist'', PStr (strip (artist orig))), (''timestamp'', PTime now)]]"
    by (rule update_history_entry)
  have "strip (title orig) = title orig \<and> strip (artist orig) = artist orig"
    if t: "trimmed_store db"
  proof -
    have td: "trimmed_doc d"
      using t h(2) by (simp add: trimmed_store_def list_all_iff)
    have "strip (title orig) = title orig"
      using get_str_cases [OF from_dict_Inr(1) [OF h(3)]] td
      by (auto simp: trimmed_doc_def trimmed_field_def strip_Nil)
    moreover have "strip (artist orig) = artist orig"
      using get_str_cases [OF from_dict_Inr(2) [OF h(3)]] td
      by (auto simp: trimmed_doc_def trimmed_field_def strip_Nil)
    ultimately show ?thesis by simp
  qed
  with h(1,4) show ?thesis by blast
qed

lemma db_update_song_remix:
  "fst (db_update_song (sample_db\<lparr>connected := True\<rparr>) ''alice'' sample_sid
          [(''title'', PStr ''Song 1 (Remix)'')] 2) = Inr True"
proof -
  let ?db = "sample_db\<lparr>connected := True\<rparr>"
  have c: "connected ?db" "songs_fault ?db = None" "songs_collection ?db = [sample_doc]"
    by (simp_all add: sample_db_def)
  have d: "sample_doc \<noteq> []" by (simp add: sample_doc_def)
  have f: "find_one (songs_collection ?db)
      [(''_id'', POid sample_oid), (''username'', PStr ''alice'')] = Some sample_doc"
    by (simp add: c find_one_sample)
  have uf: "update_fields stored_song [(''title'', PStr ''Song 1 (Remix)'')] 2 =
      (Inr (), stored_song\<lparr>title := ''Song 1 (Remix)'', updated_at := 2\<rparr>)"
    by (simp add: stored_song_def validate_def strip_def isspace_def hasattr_def setattr_def)
  have td: "to_dict (stored_song\<lparr>title := ''Song 1 (Remix)'', updated_at := 2\<rparr>) =
      [(''title'', PStr ''Song 1 (Remix)''), (''artist'', PStr ''Artist''),
       (''username'', PStr ''alice''), (''created_at'', PTime 1), (''updated_at'', PTime 2),
       (''year'', PInt 2000), (''_id'', POid sample_oid)]"
    by (simp add: to_dict_def stored_song_def strip_def isspace_def)
  have uo: "update_one [sample_doc] [(''_id'', POid sample_oid), (''username'', PStr ''alice'')]
      (to_dict (stored_song\<lparr>title := ''Song 1 (Remix)'', updated_at := 2\<rparr>)) =
      Inr (1, [set_fields sample_doc
                 (to_dict (stored_song\<lparr>title := ''Song 1 (Remix)'', updated_at := 2\<rparr>))])"
    unfolding update_one_def find_one_sample td
    by (simp add: sample_doc_def matches_def)
  show ?thesis
    by (simp add: db_update_song_found [OF c(1,2) ObjectId_sample_sid f d from_dict_sample_doc]
        uf c(3) uo del: update_fields.simps)
qed

theorem update_logs_pre_update_snapshot_witness:
  "history_collection (snd (service_update_song sample_db ''alice'' sample_sid
       [(''title'', PStr ''Song 1 (Remix)'')] 2)) =
     [[(''_id'', POid (mk_oid 1)), (''username'', PStr ''alice''),
       (''action'', PStr ''updated''), (''song_title'', PStr ''Song 1''),
       (''song_artist'', PStr ''Artist''), (''timestamp'', PTime 2)]]"
proof -
  let ?kw = "[(''title'', PStr ''Song 1 (Remix)'')]"
  let ?db1 = "sample_db\<lparr>connected := True\<rparr>"
  have p: "ping_fault sample_db = None" "history_fault sample_db = None"
    "history_collection sample_db = []" "next_oid sample_db = 1"
    by (simp_all add: sample_db_def)
  have g: "get_song_by_id ?db1 ''alice'' sample_sid 2 = Inr (Some stored_song)"
    by (rule get_song_by_id_sample_doc) (simp_all add: sample_db_def)
  obtain db2 where up: "db_update_song ?db1 ''alice'' sample_sid
      (filter (\<lambda>kv. snd kv \<noteq> PNone) ?kw) 2 = (Inr True, db2)"
    using db_update_song_remix
    by (cases "db_update_song ?db1 ''alice'' sample_sid ?kw 2") auto
  have ne: "filter (\<lambda>kv. snd kv \<noteq> PNone) ?kw \<noteq> []" by simp
  have s: "service_update_song sample_db ''alice'' sample_sid ?kw 2 =
      (Inr True, snd (service_update_song sample_db ''alice'' sample_sid ?kw 2))"
    using service_update_song_ok [OF p(1) ne g up] by simp
  have su: "strip ''alice'' = ''alice''" "strip ''Song 1'' = ''Song 1''"
    "strip ''Artist'' = ''Artist''"
    by (simp_all add: strip_def isspace_def)
  from update_logs_pre_update_snapshot [OF s p(2)]
  show ?thesis
    by (auto simp: g p su stored_song_def)
qed

lemma get_song_by_id_untrimmed:
  "get_song_by_id (untrimmed_db\<lparr>connected := c\<rparr>) ''alice'' sample_sid now =
     (if c then Inr (Some untrimmed_stored) else Inl not_connected)"
proof -
  have f: "find_one [untrimmed_doc] [(''_id'', POid sample_oid), (''username'', PStr ''alice'')] =
      Some untrimmed_doc"
    by (simp add: find_one_def matches_def untrimmed_doc_def)
  have d: "from_dict untrimmed_doc now = Inr untrimmed_stored"
    by (simp add: from_dict_def untrimmed_doc_def untrimmed_stored_def get_str_def get_time_def
        get_opt_str_def get_opt_int_def get_opt_oid_def Song_def validate_def strip_def
        isspace_def)
  have n: "untrimmed_doc \<noteq> []" by (simp add: untrimmed_doc_def)
  show ?thesis
    using n
    by (simp add: get_song_by_id_def untrimmed_db_def sample_db_def ObjectId_sample_sid f d
        reraise_def)
qed

lemma db_update_song_untrimmed:
  "fst (db_update_song (untrimmed_db\<lparr>connected := True\<rparr>) ''alice'' sample_sid
          [(''artist'', PStr ''New Artist'')] 2) = Inr True"
proof -
  let ?db = "untrimmed_db\<lparr>connected := True\<rparr>"
  have g: "get_song_by_id ?db ''alice'' sample_sid 2 = Inr (Some untrimmed_stored)"
    by (simp add: get_song_by_id_untrimmed)
  have uf: "update_fields untrimmed_stored [(''artist'', PStr ''New Artist'')] 2 =
      (Inr (), untrimmed_stored\<lparr>artist := ''New Artist'', updated_at := 2\<rparr>)"
    by (simp add: untrimmed_stored_def validate_def strip_def isspace_def hasattr_def
        setattr_def)
  have td: "to_dict (untrimmed_stored\<lparr>artist := ''New Artist'', updated_at := 2\<rparr>) =
      [(''title'', PStr ''Song 1''), (''artist'', PStr ''New Artist''),
       (''username'', PStr ''alice''), (''created_at'', PTime 1), (''updated_at'', PTime 2),
       (''_id'', POid sample_oid)]"
    by (simp add: to_dict_def untrimmed_stored_def strip_def isspace_def)
  have f: "find_one [untrimmed_doc] [(''_id'', POid sample_oid), (''username'', PStr ''alice'')] =
      Some untrimmed_doc"
    by (simp add: find_one_def matches_def untrimmed_doc_def)
  have uo: "update_one [untrimmed_doc]
      [(''_id'', POid sample_oid), (''username'', PStr ''alice'')]
      (to_dict (untrimmed_stored\<lparr>artist := ''New Artist'', updated_at := 2\<rparr>)) =
      Inr (1, [set_fields untrimmed_doc
                 (to_dict (untrimmed_stored\<lparr>artist := ''New Artist'', updated_at := 2\<rparr>))])"
    unfolding update_one_def f td
    by (simp add: untrimmed_doc_def matches_def)
  have c: "connected ?db" "songs_fault ?db = None" "songs_collection ?db = [untrimmed_doc]"
    by (simp_all add: untrimmed_db_def sample_db_def)
  show ?thesis
    unfolding db_update_song_def g
    by (simp add: c uf ObjectId_sample_sid uo del: update_fields.simps)
qed

text \<open>
  C10 as stated fails: the stored title starts with a blank, the update of the artist
  returns \<open>True\<close>, and the entry appended carries the title without the blank.
\<close>

theorem update_logs_trimmed_title_counterexample:
  "get_song_by_id (untrimmed_db\<lparr>connected := True\<rparr>) ''alice'' sample_sid 2 =
     Inr (Some untrimmed_stored)
   \<and> title untrimmed_stored = '' Song 1''
   \<and> fst (service_update_song untrimmed_db ''alice'' sample_sid
            [(''artist'', PStr ''New Artist'')] 2) = Inr True
   \<and> history_collection (snd (service_update_song untrimmed_db ''alice'' sample_sid
            [(''artist'', PStr ''New Artist'')] 2)) =
       [[(''_id'', POid (mk_oid 1)), (''username'', PStr ''alice''),
         (''action'', PStr ''updated''), (''song_title'', PStr ''Song 1''),
         (''song_artist'', PStr ''Artist''), (''timestamp'', PTime 2)]]"
proof -
  let ?kw = "[(''artist'', PStr ''New Artist'')]"
  let ?db1 = "untrimmed_db\<lparr>connected := True\<rparr>"
  have p: "ping_fault untrimmed_db = None" "history_fault untrimmed_db = None"
    "history_collection untrimmed_db = []" "next_oid untrimmed_db = 1"
    by (simp_all add: untrimmed_db_def sample_db_def)
  have g: "get_song_by_id ?db1 ''alice'' sample_sid 2 = Inr (Some untrimmed_stored)"
    by (simp add: get_song_by_id_untrimmed)
  obtain db2 where up: "db_update_song ?db1 ''alice'' sample_sid
      (filter (\<lambda>kv. snd kv \<noteq> PNone) ?kw) 2 = (Inr True, db2)"
    using db_update_song_untrimmed
    by (cases "db_update_song ?db1 ''alice'' sample_sid ?kw 2") auto
  have ne: "filter (\<lambda>kv. snd kv \<noteq> PNone) ?kw \<noteq> []" by simp
  have s: "service_update_song untrimmed_db ''alice'' sample_sid ?kw 2 =
      (Inr True, snd (service_update_song untrimmed_db ''alice'' sample_sid ?kw 2))"
    using service_update_song_ok [OF p(1) ne g up] by simp
  have su: "strip ''alice'' = ''alice''" "strip '' Song 1'' = ''Song 1''"
    "strip ''Artist'' = ''Artist''"
    by (simp_all add: strip_def isspace_def)
  from s p(2) obtain orig where o:
    "get_song_by_id ?db1 ''alice'' sample_sid 2 = Inr (Some orig)"
    "history_collection (snd (service_update_song untrimmed_db ''alice'' sample_sid ?kw 2)) =
       history_collection untrimmed_db @
         [[(''_id'', POid (mk_oid (next_oid untrimmed_db))), (''username'', PStr (strip ''alice'')),
           (''action'', PStr ''updated''), (''song_title'', PStr (strip (title orig))),
           (''song_artist'', PStr (strip (artist orig))), (''timestamp'', PTime 2)]]"
    by (rule update_history_entry)
  from o(1) g have "orig = untrimmed_stored" by simp
  with o(2) have "history_collection
      (snd (service_update_song untrimmed_db ''alice'' sample_sid ?kw 2)) =
       [[(''_id'', POid (mk_oid 1)), (''username'', PStr ''alice''),
         (''action'', PStr ''updated''), (''song_title'', PStr ''Song 1''),
         (''song_artist'', PStr ''Artist''), (''timestamp'', PTime 2)]]"
    by (simp add: p su untrimmed_stored_def)
  moreover have "fst (service_update_song untrimmed_db ''alice'' sample_sid ?kw 2) = Inr True"
    using s by (metis fst_conv)
  moreover have "title untrimmed_stored = '' Song 1''" by (simp add: untrimmed_stored_def)
  ultimately show ?thesis using g by simp
qed

text \<open>
  Every use-case keeps the stored documents trimmed, so the property holds of every
  store the services have produced from an empty one.
\<close>

lemma trimmed_store_cong:
  "songs_collection db' = songs_collection db \<Longrightarrow> trimmed_store db' = trimmed_store db"
  by (simp add: trimmed_store_def)

lemma trimmed_store_log_history:
  "trimmed_store (log_history db u act t a now) = trimmed_store db"
  by (rule trimmed_store_cong) (rule log_history_frame)

lemma trimmed_store_close: "trimmed_store (close db) = trimmed_store db"
  by (rule trimmed_store_cong) (rule close_frame)

lemma trimmed_store_with_DatabaseManager:
  assumes "trimmed_store server"
    and "\<And>db. trimmed_store db \<Longrightarrow> trimmed_store (snd (body db))"
  shows "trimmed_store (snd (with_DatabaseManager server body))"
proof (cases "ping_fault server")
  case None
  have "trimmed_store (server\<lparr>connected := True\<rparr>)"
    using assms(1) by (simp add: trimmed_store_def)
  from assms(2) [OF this] show ?thesis
    by (auto simp: with_DatabaseManager_ok [OF None] trimmed_store_close split: prod.splits)
next
  case (Some m)
  then show ?thesis using assms(1) by (simp add: with_DatabaseManager_fail)
qed

lemma snd_handle: "snd (handle h res) = snd res"
  by (simp add: handle_def split: prod.splits sum.splits)

lemma trimmed_store_service_add_song:
  assumes "trimmed_store db"
  shows "trimmed_store (snd (service_add_song db u t a g y d now))"
proof (cases "Song t a u g y d now now None")
  case (Inl e)
  then show ?thesis using assms by (simp add: service_add_song_def snd_handle)
next
  case (Inr sg)
  show ?thesis
    unfolding service_add_song_def snd_handle Inr sum.case
  proof (rule trimmed_store_with_DatabaseManager [OF assms])
    fix db1 assume "trimmed_store db1"
    from trimmed_store_db_add_song [OF this, of sg]
    show "trimmed_store (snd (case db_add_song db1 sg of
        (Inl e, db') \<Rightarrow> (Inl e, db')
      | (Inr new_id, db') \<Rightarrow> (Inr True, log_history db' u ''added'' t a now)))"
      by (auto simp: trimmed_store_log_history split: prod.splits sum.splits)
  qed
qed

lemma trimmed_store_service_update_song:
  assumes "trimmed_store db"
  shows "trimmed_store (snd (service_update_song db u sid kwargs now))"
proof (cases "filter (\<lambda>kv. snd kv \<noteq> PNone) kwargs = []")
  case True
  then show ?thesis using assms by (simp add: service_update_song_def snd_handle)
next
  case False
  show ?thesis
    unfolding service_update_song_def snd_handle Let_def if_not_P [OF False]
  proof (rule trimmed_store_with_DatabaseManager [OF assms])
    fix db1 assume t: "trimmed_store db1"
    let ?kw = "filter (\<lambda>kv. snd kv \<noteq> PNone) kwargs"
    from trimmed_store_db_update_song [OF t, of u sid ?kw now] t
    show "trimmed_store (snd (case get_song_by_id db1 u sid now of
        Inl e \<Rightarrow> (Inl e, db1)
      | Inr None \<Rightarrow> (Inr False, db1)
      | Inr (Some original_song) \<Rightarrow>
          (case db_update_song db1 u sid ?kw now of
             (Inl e, db') \<Rightarrow> (Inl e, db')
           | (Inr success, db') \<Rightarrow>
               (Inr success,
                if success then
                  log_history db' u ''updated'' (title original_song) (artist original_song) now
                else db'))))"
      by (auto simp: trimmed_store_log_history split: prod.splits sum.splits option.splits)
  qed
qed

lemma trimmed_store_service_delete_song:
  assumes "trimmed_store db"
  shows "trimmed_store (snd (service_delete_song db u sid now))"
  unfolding service_delete_song_def snd_handle
proof (rule trimmed_store_with_DatabaseManager [OF assms])
  fix db1 assume t: "trimmed_store db1"
  from trimmed_store_db_delete_song [OF t, of u sid now]
  show "trimmed_store (snd (case db_delete_song db1 u sid now of
      (Inl e, db') \<Rightarrow> (Inl e, db')
    | (Inr None, db') \<Rightarrow> (Inr False, db')
    | (Inr (Some deleted_song), db') \<Rightarrow>
        (Inr True,
         log_history db' u ''deleted'' (title deleted_song) (artist deleted_song) now)))"
    by (auto simp: trimmed_store_log_history split: prod.splits sum.splits option.splits)
qed

lemma trimmed_store_service_get_song:
  assumes "trimmed_store db"
  shows "trimmed_store (snd (service_get_song db u sid now))"
  unfolding service_get_song_def snd_handle
proof (rule trimmed_store_with_DatabaseManager [OF assms])
  fix db1 assume t: "trimmed_store db1"
  then show "trimmed_store (snd (case get_song_by_id db1 u sid now of
      Inl e \<Rightarrow> (Inl e, db1)
    | Inr None \<Rightarrow> (Inr None, db1)
    | Inr (Some song) \<Rightarrow>
        (Inr (Some song), log_history db1 u ''viewed'' (title song) (artist song) now)))"
    by (simp add: trimmed_store_log_history split: sum.splits option.splits)
qed

lemma trimmed_store_play_song:
  assumes "trimmed_store db"
  shows "trimmed_store (snd (play_song db u sid now))"
proof -
  obtain r db1 where g: "service_get_song db u sid now = (r, db1)"
    by (cases "service_get_song db u sid now")
  have t: "trimmed_store db1"
    using trimmed_store_service_get_song [OF assms, of u sid now] g by simp
  have w: "trimmed_store db2"
    if "with_DatabaseManager db1
          (\<lambda>db. (Inr (), log_history db u ''played'' t' a' now)) = (r', db2)"
    for t' a' and r' :: "exn + unit" and db2
    using trimmed_store_with_DatabaseManager [OF t,
        of "\<lambda>db. (Inr () :: exn + unit, log_history db u ''played'' t' a' now)"] that
    by (simp add: trimmed_store_log_history)
  show ?thesis
    using t by (auto simp: play_song_def g split: sum.splits option.splits prod.splits dest: w)
qed

lemma trimmed_store_empty:
  "trimmed_store \<lparr>connected = False, songs_collection = [], history_collection = [],
     next_oid = 0, ping_fault = None, songs_fault = None, history_fault = None\<rparr>"
  by (simp add: trimmed_store_def)

end
